theory Spec2Isabelle
  imports Complex_Main
begin

section \<open>Values\<close>

text \<open>
  The component of \<^verbatim>\<open>src/app/page.tsx\<close> is modelled by its state, by the actions its
  handlers and effects perform on that state, and by the browser it talks to.

  A JavaScript string is a \<^typ>\<open>string\<close>. The code only concatenates strings, compares
  them, tests them for emptiness and hands them to three built-ins; the built-ins are
  parameters of the model (record \<open>builtins\<close> below), so no theorem depends on how a
  JavaScript string is written as a list of characters.

  A JavaScript number is a rational: the code stores numbers and passes them on, and
  looks one of them up in a table; it never calculates with them.
\<close>

type_synonym number = rat

text \<open>
  What \<^verbatim>\<open>JSON.parse\<close> can return. The history read back from local storage is cast
  to \<^verbatim>\<open>string[]\<close> without a check of its elements, so the state keeps such values.
\<close>

datatype json =
    JNull
  | JBool bool
  | JNum number
  | JStr string
  | JArr "json list"
  | JObj "(string \<times> json) list"

record GeocodeResult =
  name :: string
  country :: string
  latitude :: number
  longitude :: number
  timezone :: "string option"

record ImageRef =
  source :: "string option"

record WikipediaSummary =
  originalimage :: "ImageRef option"
  thumbnail :: "ImageRef option"

record WeatherResponse =
  location :: string
  temperature :: number
  windSpeed :: number
  weatherDescription :: string
  timezone :: "string option"
  imageUrl :: "string option"
  fallbackImageUrl :: "string option"

text \<open>The parts of the two mandatory responses that \<^verbatim>\<open>onSubmit\<close> reads.\<close>

record GeocodeData =
  results :: "GeocodeResult list option"

record CurrentWeather =
  temperature_2m :: number
  wind_speed_10m :: number
  weather_code :: number

record WeatherData =
  current :: "CurrentWeather option"
  timezone :: "string option"

definition weatherCodeMap :: "number \<rightharpoonup> string" where
  "weatherCodeMap = map_of
     [(0, ''Clear sky''), (1, ''Mainly clear''), (2, ''Partly cloudy''), (3, ''Overcast''),
      (45, ''Fog''), (48, ''Depositing rime fog''),
      (51, ''Light drizzle''), (53, ''Moderate drizzle''), (55, ''Dense drizzle''),
      (61, ''Slight rain''), (63, ''Moderate rain''), (65, ''Heavy rain''),
      (71, ''Slight snow''), (73, ''Moderate snow''), (75, ''Heavy snow''),
      (80, ''Rain showers''), (81, ''Moderate showers''), (82, ''Violent showers''),
      (95, ''Thunderstorm'')]"

definition MAX_VISIBLE_HISTORY_ITEMS :: nat where
  "MAX_VISIBLE_HISTORY_ITEMS = 5"

definition MAX_STORED_HISTORY_ITEMS :: nat where
  "MAX_STORED_HISTORY_ITEMS = 30"

section \<open>The browser\<close>

text \<open>
  The built-ins the code calls on strings. \<^verbatim>\<open>encodeURIComponent\<close> raises a URIError
  on a lone surrogate: \<open>None\<close>.
\<close>

record builtins =
  trim :: "string \<Rightarrow> string"
  toLowerCase :: "string \<Rightarrow> string"
  encodeURIComponent :: "string \<Rightarrow> string option"

text \<open>
  The three requests of a submission, by the parts of their URLs that vary:
  \<^verbatim>\<open>https://geocoding-api.open-meteo.com/v1/search?name=<q>&count=1\<close>,
  \<^verbatim>\<open>https://api.open-meteo.com/v1/forecast?latitude=<lat>&longitude=<lon>&current=...&timezone=auto\<close>
  and \<^verbatim>\<open>https://en.wikipedia.org/api/rest_v1/page/summary/<name>\<close>.
\<close>

datatype request =
    GeocodeRequest string
  | ForecastRequest number number
  | ImageRequest string

text \<open>
  What \<^verbatim>\<open>await fetch(url)\<close> followed by \<^verbatim>\<open>await response.json()\<close> gives: \<open>Failed\<close>
  when either raises (both stand in the same \<^verbatim>\<open>try\<close> with nothing between them),
  the body otherwise. The image lookup reads \<^verbatim>\<open>response.ok\<close> before the body, so its
  reply keeps the two apart; the body is \<open>None\<close> when \<^verbatim>\<open>json()\<close> raises.
\<close>

datatype 'a reply = Failed | Json 'a

datatype wiki_reply = WikiFailed | WikiResponse bool "WikipediaSummary option"

record network =
  fetch_geocode :: "string \<Rightarrow> GeocodeData reply"
  fetch_forecast :: "number \<Rightarrow> number \<Rightarrow> WeatherData reply"
  fetch_wiki :: "string \<Rightarrow> wiki_reply"

text \<open>
  The entry \<^verbatim>\<open>weather_search_history\<close> of local storage, by what \<^verbatim>\<open>getItem\<close> and
  \<^verbatim>\<open>JSON.parse\<close> make of it: no entry, the empty text, a text that \<^verbatim>\<open>JSON.parse\<close>
  rejects, or a text that it turns into a value (\<^verbatim>\<open>JSON.stringify\<close> writes such a text).
  Every text is one of the last three.
\<close>

datatype persisted = Absent | EmptyText | NotJson | JsonText json

text \<open>
  Local storage as the page meets it. When the browser denies the page its storage
  (\<open>denied\<close>), reading \<^verbatim>\<open>window.localStorage\<close> raises a SecurityError, in \<^verbatim>\<open>getItem\<close>
  as in \<^verbatim>\<open>setItem\<close>; when the storage takes no more (\<open>full\<close>), \<^verbatim>\<open>setItem\<close> raises a
  QuotaExceededError. The page can change neither.
\<close>

record localStorage =
  weather_user :: "string option"
  weather_search_history :: persisted
  denied :: bool
  full :: bool

definition can_read :: "localStorage \<Rightarrow> bool" where
  "can_read st = (\<not> denied st)"

definition can_write :: "localStorage \<Rightarrow> bool" where
  "can_write st = (\<not> denied st \<and> \<not> full st)"

section \<open>The state of the component\<close>

text \<open>
  The timer of the clock effect, by what \<^verbatim>\<open>setInterval\<close> was given: the formatter that
  \<^verbatim>\<open>updateTime\<close> holds (its options, and the text it prints for a time) and the delay. A
  time is a number of milliseconds.
\<close>

type_synonym time = nat

record DateTimeFormat =
  locales :: string
  timeZone :: string
  hour :: string
  minute :: string
  second :: string
  hour12 :: bool

record timer =
  formatter :: DateTimeFormat
  print :: "time \<Rightarrow> string"
  delay :: nat

record state =
  city :: json
  result :: "WeatherResponse option"
  error :: string
  loading :: bool
  searchHistory :: "json list"
  showHistory :: bool
  loggedInUser :: string
  cityTime :: string
  bgImageUrl :: string
  interval :: "timer option"
  storage :: localStorage

text \<open>
  What a handler does, in the order it does it: the setters it calls, the requests it
  sends and its call of \<^verbatim>\<open>setItem\<close>, which writes only when the storage lets it and
  raises otherwise (the handler that calls it then ends as \<open>Thrown\<close>, see
  \<open>record_search\<close>).
\<close>

datatype action =
    PreventDefault
  | SetLoading bool
  | SetError string
  | SetResult "WeatherResponse option"
  | SetBgImageUrl string
  | SetSearchHistory "json list"
  | SetCity json
  | SetShowHistory bool
  | SetLoggedInUser string
  | SetItemHistory json
  | Fetch request

fun apply_action :: "state \<Rightarrow> action \<Rightarrow> state" where
  "apply_action s PreventDefault = s"
| "apply_action s (SetLoading b) = s\<lparr>loading := b\<rparr>"
| "apply_action s (SetError e) = s\<lparr>error := e\<rparr>"
| "apply_action s (SetResult r) = s\<lparr>result := r\<rparr>"
| "apply_action s (SetBgImageUrl u) = s\<lparr>bgImageUrl := u\<rparr>"
| "apply_action s (SetSearchHistory h) = s\<lparr>searchHistory := h\<rparr>"
| "apply_action s (SetCity c) = s\<lparr>city := c\<rparr>"
| "apply_action s (SetShowHistory b) = s\<lparr>showHistory := b\<rparr>"
| "apply_action s (SetLoggedInUser u) = s\<lparr>loggedInUser := u\<rparr>"
| "apply_action s (SetItemHistory v) =
     (if can_write (storage s)
      then s\<lparr>storage := (storage s)\<lparr>weather_search_history := JsonText v\<rparr>\<rparr>
      else s)"
| "apply_action s (Fetch r) = s"

definition run :: "state \<Rightarrow> action list \<Rightarrow> state" where
  "run s acts = foldl apply_action s acts"

definition requests :: "action list \<Rightarrow> request list" where
  "requests acts = concat (map (\<lambda>a. case a of Fetch r \<Rightarrow> [r] | _ \<Rightarrow> []) acts)"

section \<open>onSubmit\<close>

datatype completion = Returned | Thrown

text \<open>\<^verbatim>\<open>geocodeData?.results?.[0]\<close>\<close>

definition first_result :: "GeocodeData \<Rightarrow> GeocodeResult option" where
  "first_result geocodeData =
     (case results geocodeData of
        None \<Rightarrow> None
      | Some [] \<Rightarrow> None
      | Some (r # _) \<Rightarrow> Some r)"

text \<open>\<^verbatim>\<open>wikiData.originalimage?.source ?? wikiData.thumbnail?.source ?? null\<close>\<close>

definition image_source :: "ImageRef option \<Rightarrow> string option" where
  "image_source i = (case i of None \<Rightarrow> None | Some r \<Rightarrow> source r)"

definition pick_image :: "WikipediaSummary \<Rightarrow> string option" where
  "pick_image wikiData =
     (case image_source (originalimage wikiData) of
        Some u \<Rightarrow> Some u
      | None \<Rightarrow> image_source (thumbnail wikiData))"

text \<open>
  The inner \<^verbatim>\<open>try\<close> of lines 244 to 254: whatever is raised there leaves
  \<^verbatim>\<open>imageUrl\<close> null.
\<close>

definition image_lookup :: "builtins \<Rightarrow> network \<Rightarrow> string \<Rightarrow> action list \<times> string option" where
  "image_lookup B N place =
     (case encodeURIComponent B place of
        None \<Rightarrow> ([], None)
      | Some e \<Rightarrow>
          ([Fetch (ImageRequest e)],
           (case fetch_wiki N e of
              WikiFailed \<Rightarrow> None
            | WikiResponse ok body \<Rightarrow>
                (if ok then (case body of None \<Rightarrow> None | Some wikiData \<Rightarrow> pick_image wikiData)
                 else None))))"

text \<open>
  \<^verbatim>\<open>searchHistory.filter((item) => item.toLowerCase() !== cleanCity.toLowerCase())\<close>.
  An item that is not a string has no \<^verbatim>\<open>toLowerCase\<close>: the call raises a TypeError,
  \<open>None\<close>.
\<close>

fun filter_history :: "builtins \<Rightarrow> string \<Rightarrow> json list \<Rightarrow> json list option" where
  "filter_history B cleanCity [] = Some []"
| "filter_history B cleanCity (JStr item # rest) =
     (case filter_history B cleanCity rest of
        None \<Rightarrow> None
      | Some kept \<Rightarrow>
          Some (if toLowerCase B item \<noteq> toLowerCase B cleanCity then JStr item # kept else kept))"
| "filter_history B cleanCity (_ # rest) = None"

text \<open>
  Lines 268 to 275. \<^verbatim>\<open>setSearchHistory\<close> has been called when \<^verbatim>\<open>setItem\<close> raises on a
  storage that does not take the write.
\<close>

definition record_search ::
  "builtins \<Rightarrow> string \<Rightarrow> json list \<Rightarrow> localStorage \<Rightarrow> action list \<times> completion" where
  "record_search B cleanCity history st =
     (if cleanCity \<noteq> [] then
        (case filter_history B cleanCity history of
           None \<Rightarrow> ([], Thrown)
         | Some kept \<Rightarrow>
             (let nextHistory = take MAX_STORED_HISTORY_ITEMS (JStr cleanCity # kept)
              in ([SetSearchHistory nextHistory, SetItemHistory (JArr nextHistory)],
                  if can_write st then Returned else Thrown)))
      else ([], Returned))"

definition fallback_image_url :: "string \<Rightarrow> string" where
  "fallback_image_url encoded = ''https://loremflickr.com/1600/900/'' @ encoded"

definition next_result ::
  "GeocodeResult \<Rightarrow> WeatherData \<Rightarrow> CurrentWeather \<Rightarrow> string option \<Rightarrow> string \<Rightarrow> WeatherResponse" where
  "next_result loc weatherData cur img fallback =
     \<lparr>location = name loc @ '', '' @ country loc,
      temperature = temperature_2m cur,
      windSpeed = wind_speed_10m cur,
      weatherDescription = (case weatherCodeMap (weather_code cur) of Some d \<Rightarrow> d | None \<Rightarrow> ''Unknown''),
      timezone = (case GeocodeResult.timezone loc of Some z \<Rightarrow> Some z | None \<Rightarrow> WeatherData.timezone weatherData),
      imageUrl = img,
      fallbackImageUrl = Some fallback\<rparr>"

text \<open>\<^verbatim>\<open>nextResult.imageUrl ?? nextResult.fallbackImageUrl ?? ""\<close>\<close>

definition background_of :: "WeatherResponse \<Rightarrow> string" where
  "background_of r =
     (case imageUrl r of
        Some u \<Rightarrow> u
      | None \<Rightarrow> (case fallbackImageUrl r of Some f \<Rightarrow> f | None \<Rightarrow> []))"

text \<open>Lines 239 to 275: from the fallback URL to the history.\<close>

definition show_weather ::
  "builtins \<Rightarrow> network \<Rightarrow> string \<Rightarrow> json list \<Rightarrow> localStorage \<Rightarrow> GeocodeResult \<Rightarrow> WeatherData
     \<Rightarrow> CurrentWeather \<Rightarrow> action list \<times> completion" where
  "show_weather B N cleanCity history st loc weatherData cur =
     (case encodeURIComponent B (name loc @ '' '' @ country loc @ '' skyline'') of
        None \<Rightarrow> ([], Thrown)
      | Some encoded \<Rightarrow>
          (let (fetched, img) = image_lookup B N (name loc);
               nextResult = next_result loc weatherData cur img (fallback_image_url encoded);
               (recorded, c) = record_search B cleanCity history st
           in (fetched @ [SetResult (Some nextResult), SetBgImageUrl (background_of nextResult)] @ recorded,
               c)))"

text \<open>Lines 229 to 237, then the rest.\<close>

definition forecast_lookup ::
  "builtins \<Rightarrow> network \<Rightarrow> string \<Rightarrow> json list \<Rightarrow> localStorage \<Rightarrow> GeocodeResult
     \<Rightarrow> action list \<times> completion" where
  "forecast_lookup B N cleanCity history st loc =
     (let sent = [Fetch (ForecastRequest (latitude loc) (longitude loc))] in
      case fetch_forecast N (latitude loc) (longitude loc) of
        Failed \<Rightarrow> (sent, Thrown)
      | Json weatherData \<Rightarrow>
          (case current weatherData of
             None \<Rightarrow> (sent @ [SetError ''Weather unavailable.''], Returned)
           | Some cur \<Rightarrow>
               (let (acts, c) = show_weather B N cleanCity history st loc weatherData cur
                in (sent @ acts, c))))"

text \<open>
  The body of the outer \<^verbatim>\<open>try\<close>, lines 217 to 275. \<^verbatim>\<open>city\<close> and
  \<^verbatim>\<open>searchHistory\<close> are the values of the render in which the form was submitted;
  the storage is the browser's.
  A \<^verbatim>\<open>city\<close> that is not a string has no \<^verbatim>\<open>trim\<close>: a TypeError.
\<close>

definition try_body :: "builtins \<Rightarrow> network \<Rightarrow> state \<Rightarrow> action list \<times> completion" where
  "try_body B N s =
     (case city s of
        JStr c \<Rightarrow>
          (let cleanCity = trim B c in
           case encodeURIComponent B cleanCity of
             None \<Rightarrow> ([], Thrown)
           | Some q \<Rightarrow>
               (let sent = [Fetch (GeocodeRequest q)] in
                case fetch_geocode N q of
                  Failed \<Rightarrow> (sent, Thrown)
                | Json geocodeData \<Rightarrow>
                    (case first_result geocodeData of
                       None \<Rightarrow> (sent @ [SetError ''City not found.''], Returned)
                     | Some loc \<Rightarrow>
                         (let (acts, c) =
                                forecast_lookup B N cleanCity (searchHistory s) (storage s) loc
                          in (sent @ acts, c)))))
      | _ \<Rightarrow> ([], Thrown))"

definition onSubmit :: "builtins \<Rightarrow> network \<Rightarrow> state \<Rightarrow> action list" where
  "onSubmit B N s =
     [PreventDefault, SetLoading True, SetError [], SetResult None] @
     (case try_body B N s of
        (acts, c) \<Rightarrow>
          acts @
          (if c = Thrown then [SetError ''Unable to connect. Please try again.''] else []) @
          [SetLoading False])"

text \<open>The state once a submission has settled.\<close>

definition submit :: "builtins \<Rightarrow> network \<Rightarrow> state \<Rightarrow> state" where
  "submit B N s = run s (onSubmit B N s)"

text \<open>
  A user types or picks an input and submits it, waits for the submission to settle,
  and does so again: the inputs with the network each of them meets.
\<close>

fun searches :: "builtins \<Rightarrow> state \<Rightarrow> (json \<times> network) list \<Rightarrow> state" where
  "searches B s [] = s"
| "searches B s ((c, N) # rest) = searches B (submit B N (apply_action s (SetCity c))) rest"

text \<open>
  The image lookup fails: something raises (the encoding of the name, the request, the
  reading of the body), the status is not a success, or the body has neither image.
\<close>

definition image_lookup_fails :: "builtins \<Rightarrow> network \<Rightarrow> string \<Rightarrow> bool" where
  "image_lookup_fails B N place =
     (case encodeURIComponent B place of
        None \<Rightarrow> True
      | Some e \<Rightarrow>
          (case fetch_wiki N e of
             WikiFailed \<Rightarrow> True
           | WikiResponse ok body \<Rightarrow>
               \<not> ok \<or>
               (case body of
                  None \<Rightarrow> True
                | Some wikiData \<Rightarrow>
                    image_source (originalimage wikiData) = None \<and>
                    image_source (thumbnail wikiData) = None)))"

text \<open>
  For the proofs: the actions that touch neither the message, nor the history, nor the
  loading flag; the trimmed input of a submission; and the three ways the body of the
  \<^verbatim>\<open>try\<close> can end: it reaches the recording of the search, it raises before, or it
  returns early with a message.
\<close>

fun is_SetLoading :: "action \<Rightarrow> bool" where
  "is_SetLoading (SetLoading _) = True"
| "is_SetLoading _ = False"

fun quiet :: "action \<Rightarrow> bool" where
  "quiet (Fetch _) = True"
| "quiet (SetResult _) = True"
| "quiet (SetBgImageUrl _) = True"
| "quiet _ = False"

definition cleanCity_of :: "builtins \<Rightarrow> state \<Rightarrow> string" where
  "cleanCity_of B s = (case city s of JStr c \<Rightarrow> trim B c | _ \<Rightarrow> [])"

definition outcome_shape ::
  "builtins \<Rightarrow> string \<Rightarrow> json list \<Rightarrow> localStorage \<Rightarrow> action list \<times> completion \<Rightarrow> bool" where
  "outcome_shape B c h st r =
     (\<exists>pre. list_all quiet pre \<and>
        (r = (pre @ fst (record_search B c h st), snd (record_search B c h st)) \<or>
         r = (pre, Thrown) \<or>
         (\<exists>msg. msg \<noteq> [] \<and> r = (pre @ [SetError msg], Returned))))"

definition settle :: "builtins \<Rightarrow> network \<Rightarrow> state \<Rightarrow> action list" where
  "settle B N s = SetError [] # SetResult None # fst (try_body B N s) @
     (if snd (try_body B N s) = Thrown then [SetError ''Unable to connect. Please try again.''] else [])"

section \<open>The history at startup\<close>

text \<open>The \<^verbatim>\<open>useState\<close> defaults of lines 56 to 72, over a given local storage.\<close>

definition initial_state :: "localStorage \<Rightarrow> state" where
  "initial_state st =
     \<lparr>city = JStr [], result = None, error = [], loading = False, searchHistory = [],
      showHistory = False, loggedInUser = [], cityTime = [], bgImageUrl = [],
      interval = None, storage = st\<rparr>"

text \<open>
  The body of the \<^verbatim>\<open>try\<close> of lines 134 to 137. \<^verbatim>\<open>JSON.parse\<close> raises a SyntaxError
  on a text that is not JSON; \<^verbatim>\<open>Array.isArray\<close> is all that is asked of the value.
\<close>

definition parse_history :: "persisted \<Rightarrow> action list \<times> completion" where
  "parse_history savedHistory =
     (case savedHistory of
        JsonText parsed \<Rightarrow>
          (case parsed of
             JArr items \<Rightarrow> ([SetSearchHistory (take MAX_STORED_HISTORY_ITEMS items)], Returned)
           | _ \<Rightarrow> ([], Returned))
      | _ \<Rightarrow> ([], Thrown))"

text \<open>
  The \<^verbatim>\<open>try\<close> and \<^verbatim>\<open>catch\<close> of lines 133 to 140: what the body raises is caught, and
  the catch sets the empty history.
\<close>

definition guarded_parse :: "persisted \<Rightarrow> action list \<times> completion" where
  "guarded_parse savedHistory =
     (case parse_history savedHistory of
        (acts, Thrown) \<Rightarrow> (acts @ [SetSearchHistory []], Returned)
      | (acts, Returned) \<Rightarrow> (acts, Returned))"

text \<open>
  The effect of lines 125 to 142, run once when the component mounts. The two calls of
  \<^verbatim>\<open>getItem\<close> stand outside the \<^verbatim>\<open>try\<close>: on a storage that the browser denies, the
  first raises and the effect ends there, raising to React.
\<close>

definition load_effect :: "localStorage \<Rightarrow> action list \<times> completion" where
  "load_effect st =
     (if \<not> can_read st then ([], Thrown)
      else
        (let user = (case weather_user st of
                       None \<Rightarrow> []
                     | Some savedUser \<Rightarrow> if savedUser \<noteq> [] then [SetLoggedInUser savedUser] else [])
         in case weather_search_history st of
              Absent \<Rightarrow> (user, Returned)
            | EmptyText \<Rightarrow> (user, Returned)
            | savedHistory \<Rightarrow>
                (case guarded_parse savedHistory of (acts, c) \<Rightarrow> (user @ acts, c))))"

text \<open>The state that the setters of the effect leave.\<close>

definition startup :: "localStorage \<Rightarrow> state" where
  "startup st = run (initial_state st) (fst (load_effect st))"

text \<open>
  The invariant of the history: at most \<open>MAX_STORED_HISTORY_ITEMS\<close> entries, no two of
  them equal once lowercased.
\<close>

fun is_string :: "json \<Rightarrow> bool" where
  "is_string (JStr _) = True"
| "is_string _ = False"

fun ci_key :: "builtins \<Rightarrow> json \<Rightarrow> json" where
  "ci_key B (JStr item) = JStr (toLowerCase B item)"
| "ci_key B v = v"

definition history_inv :: "builtins \<Rightarrow> json list \<Rightarrow> bool" where
  "history_inv B h = (length h \<le> MAX_STORED_HISTORY_ITEMS \<and> distinct (map (ci_key B) h))"

text \<open>The same of the array that local storage holds, if it holds one.\<close>

definition persisted_inv :: "builtins \<Rightarrow> persisted \<Rightarrow> bool" where
  "persisted_inv B p =
     (case p of JsonText (JArr items) \<Rightarrow> distinct (map (ci_key B) items) | _ \<Rightarrow> True)"

text \<open>
  The format of the entry: a JSON array of strings. Anything else is absent or
  malformed.
\<close>

definition well_formed :: "persisted \<Rightarrow> bool" where
  "well_formed p = (case p of JsonText (JArr items) \<Rightarrow> list_all is_string items | _ \<Rightarrow> False)"

text \<open>An entry that is absent, or an array of strings.\<close>

definition strings_stored :: "persisted \<Rightarrow> bool" where
  "strings_stored p = (p = Absent \<or> well_formed p)"

section \<open>The history dropdown\<close>

text \<open>
  What React makes of a value written as a child, \<^verbatim>\<open>{item}\<close>: it writes a string or a
  number, writes nothing for null and the booleans, takes an array element by element,
  and raises on an object ("Objects are not valid as a React child").
\<close>

fun renderable :: "json \<Rightarrow> bool" where
  "renderable (JObj _) = False"
| "renderable (JArr xs) = (\<forall>x\<in>set xs. renderable x)"
| "renderable _ = True"

datatype 'a rendered = Raises | Renders 'a

text \<open>
  Lines 372 to 388: the container, with the \<^verbatim>\<open>maxHeight\<close> of its style in pixels, and
  one button for each entry of \<^verbatim>\<open>searchHistory.map\<close>, each with its entry as child.
\<close>

record dropdown =
  maxHeight :: nat
  buttons :: "json list"

definition history_dropdown :: "state \<Rightarrow> dropdown option rendered" where
  "history_dropdown s =
     (if showHistory s \<and> length (searchHistory s) > 0
      then (if list_all renderable (searchHistory s)
            then Renders (Some \<lparr>maxHeight = MAX_VISIBLE_HISTORY_ITEMS * 40, buttons = searchHistory s\<rparr>)
            else Raises)
      else Renders None)"

text \<open>
  The handlers of the input and of the buttons, lines 367 to 369 and 382:
  \<^verbatim>\<open>onChange\<close>, \<^verbatim>\<open>onFocus\<close>, the timeout that \<^verbatim>\<open>onBlur\<close> sets, and
  \<^verbatim>\<open>onMouseDown={() => setCity(item)}\<close> of a button of type \<^verbatim>\<open>button\<close>.
\<close>

definition onMouseDown :: "json \<Rightarrow> action list" where
  "onMouseDown item = [SetCity item]"

datatype ui_event = Change string | Focus | BlurTimeout | MouseDown json

fun ui_handler :: "ui_event \<Rightarrow> action list" where
  "ui_handler (Change v) = [SetCity (JStr v)]"
| "ui_handler Focus = [SetShowHistory True]"
| "ui_handler BlurTimeout = [SetShowHistory False]"
| "ui_handler (MouseDown item) = onMouseDown item"

definition ui_actions :: "ui_event list \<Rightarrow> action list" where
  "ui_actions evs = concat (map ui_handler evs)"

section \<open>The clock\<close>

text \<open>
  \<^verbatim>\<open>new Intl.DateTimeFormat("en-US", options)\<close> is a parameter: the text that the
  formatter prints for a time, or \<open>None\<close> when the constructor raises a RangeError, as
  it does on a time zone that the browser does not know.
\<close>

type_synonym format = "DateTimeFormat \<Rightarrow> (time \<Rightarrow> string) option"

text \<open>\<^verbatim>\<open>result?.timezone\<close>, the dependency of the effect.\<close>

definition result_timezone :: "state \<Rightarrow> string option" where
  "result_timezone s =
     (case result s of None \<Rightarrow> None | Some r \<Rightarrow> WeatherResponse.timezone r)"

text \<open>The time zone when \<^verbatim>\<open>!result?.timezone\<close> is false.\<close>

definition active_timezone :: "state \<Rightarrow> string option" where
  "active_timezone s =
     (case result_timezone s of
        None \<Rightarrow> None
      | Some z \<Rightarrow> if z = [] then None else Some z)"

definition clock_format :: "string \<Rightarrow> DateTimeFormat" where
  "clock_format z =
     \<lparr>locales = ''en-US'', timeZone = z, hour = ''2-digit'', minute = ''2-digit'',
      second = ''2-digit'', hour12 = True\<rparr>"

text \<open>
  The effect of lines 144 to 162 and the cleanup it returns. The constructor stands in
  no \<^verbatim>\<open>try\<close>: when it raises, the effect raises to React, \<open>None\<close>.
\<close>

definition clock_effect :: "format \<Rightarrow> time \<Rightarrow> state \<Rightarrow> state option" where
  "clock_effect F now s =
     (case active_timezone s of
        None \<Rightarrow> Some (s\<lparr>cityTime := []\<rparr>)
      | Some z \<Rightarrow>
          (case F (clock_format z) of
             None \<Rightarrow> None
           | Some p \<Rightarrow>
               Some (s\<lparr>cityTime := p now,
                       interval := Some \<lparr>formatter = clock_format z, print = p, delay = 1000\<rparr>\<rparr>)))"

definition clock_cleanup :: "state \<Rightarrow> state" where
  "clock_cleanup s = s\<lparr>interval := None\<rparr>"

text \<open>\<^verbatim>\<open>updateTime\<close>, when the interval fires.\<close>

definition tick :: "time \<Rightarrow> state \<Rightarrow> state" where
  "tick now s =
     (case interval s of
        None \<Rightarrow> s
      | Some t \<Rightarrow> s\<lparr>cityTime := print t now\<rparr>)"

text \<open>
  The page is mounted, with a state, or React has unmounted it: with no error boundary,
  what a render or an effect raises unmounts the whole page, and the cleanups of its
  effects run, so that no timer is left.

  React runs the effect again after a render in which its dependency has changed, the
  cleanup of the previous run first. The model merges \<^verbatim>\<open>undefined\<close> and \<^verbatim>\<open>null\<close>;
  a change from one to the other makes React run the effect where the model does not,
  and that run only sets \<^verbatim>\<open>cityTime\<close> to the empty string that it already is.
\<close>

datatype page = Unmounted | Mounted state

definition commit :: "format \<Rightarrow> time \<Rightarrow> state \<Rightarrow> state \<Rightarrow> page" where
  "commit F now old new =
     (if result_timezone new \<noteq> result_timezone old
      then (case clock_effect F now (clock_cleanup new) of
              None \<Rightarrow> Unmounted
            | Some s \<Rightarrow> Mounted s)
      else Mounted new)"

text \<open>A setter is called, or the interval fires. The render comes before the effects.\<close>

datatype event = Dispatch time action | Tick time

fun step :: "format \<Rightarrow> page \<Rightarrow> event \<Rightarrow> page" where
  "step F Unmounted ev = Unmounted"
| "step F (Mounted s) (Dispatch now a) =
     (if history_dropdown (apply_action s a) = Raises then Unmounted
      else commit F now s (apply_action s a))"
| "step F (Mounted s) (Tick now) = Mounted (tick now s)"

text \<open>
  The mount: the first render, then the load effect and the clock effect. The load
  effect raises on a storage that the browser denies.
\<close>

definition mount :: "format \<Rightarrow> time \<Rightarrow> localStorage \<Rightarrow> page" where
  "mount F now st =
     (if snd (load_effect st) = Thrown then Unmounted
      else (case clock_effect F now (startup st) of
              None \<Rightarrow> Unmounted
            | Some s \<Rightarrow> Mounted s))"

definition app_page :: "format \<Rightarrow> time \<Rightarrow> localStorage \<Rightarrow> event list \<Rightarrow> page" where
  "app_page F now st events = foldl (step F) (mount F now st) events"

text \<open>
  The invariant of the clock: with a time zone that is not empty, the one interval is
  the one that the effect made for it; with none, there is no interval and no
  displayed time.
\<close>

definition clock_inv :: "format \<Rightarrow> state \<Rightarrow> bool" where
  "clock_inv F s =
     (case active_timezone s of
        None \<Rightarrow> interval s = None \<and> cityTime s = []
      | Some z \<Rightarrow>
          (case F (clock_format z) of
             None \<Rightarrow> False
           | Some p \<Rightarrow> interval s = Some \<lparr>formatter = clock_format z, print = p, delay = 1000\<rparr>))"

definition page_inv :: "format \<Rightarrow> page \<Rightarrow> bool" where
  "page_inv F pg = (case pg of Unmounted \<Rightarrow> True | Mounted s \<Rightarrow> clock_inv F s)"

section \<open>A browser for the examples\<close>

text \<open>
  The built-ins on strings whose characters are the code units below 256, as
  ECMAScript defines them there: the white space that \<^verbatim>\<open>trim\<close> removes, the letters
  that \<^verbatim>\<open>toLowerCase\<close> changes, and the UTF-8 escapes of \<^verbatim>\<open>encodeURIComponent\<close>,
  which never fails on such strings. The examples below run on them; the theorems hold
  for every value of the built-ins.
\<close>

definition is_space :: "char \<Rightarrow> bool" where
  "is_space ch = (of_char ch \<in> {9, 10, 11, 12, 13, 32, 160 :: nat})"

definition latin1_trim :: "string \<Rightarrow> string" where
  "latin1_trim s = rev (dropWhile is_space (rev (dropWhile is_space s)))"

definition lower_char :: "char \<Rightarrow> char" where
  "lower_char ch =
     (let n = of_char ch :: nat
      in if (65 \<le> n \<and> n \<le> 90) \<or> (192 \<le> n \<and> n \<le> 222 \<and> n \<noteq> 215) then char_of (n + 32) else ch)"

definition unreserved :: "char \<Rightarrow> bool" where
  "unreserved ch =
     (let n = of_char ch :: nat
      in (65 \<le> n \<and> n \<le> 90) \<or> (97 \<le> n \<and> n \<le> 122) \<or> (48 \<le> n \<and> n \<le> 57) \<or>
         n \<in> {45, 95, 46, 33, 126, 42, 39, 40, 41})"

definition hex_digit :: "nat \<Rightarrow> char" where
  "hex_digit n = ''0123456789ABCDEF'' ! n"

definition percent :: "nat \<Rightarrow> string" where
  "percent n = [CHR ''%'', hex_digit (n div 16), hex_digit (n mod 16)]"

definition encode_char :: "char \<Rightarrow> string" where
  "encode_char ch =
     (let n = of_char ch :: nat
      in if unreserved ch then [ch]
         else if n < 128 then percent n
         else percent (192 + n div 64) @ percent (128 + n mod 64))"

definition latin1 :: builtins where
  "latin1 =
     \<lparr>trim = latin1_trim,
      toLowerCase = map lower_char,
      encodeURIComponent = (\<lambda>s. Some (concat (map encode_char s)))\<rparr>"

definition paris :: GeocodeResult where
  "paris =
     \<lparr>name = ''Paris'', country = ''France'', latitude = 48.85, longitude = 2.35,
      timezone = Some ''Europe/Paris''\<rparr>"

definition overcast :: WeatherData where
  "overcast =
     \<lparr>current = Some \<lparr>temperature_2m = 12.3, wind_speed_10m = 7.4, weather_code = 3\<rparr>,
      timezone = Some ''Europe/Paris''\<rparr>"

text \<open>
  Five networks: one that knows no city, one whose forecast has no \<^verbatim>\<open>current\<close>, one
  whose image lookup answers 404, one where everything answers, one that is down.
\<close>

definition net_unknown :: network where
  "net_unknown =
     \<lparr>fetch_geocode = (\<lambda>q. Json \<lparr>results = None\<rparr>),
      fetch_forecast = (\<lambda>lat lon. Failed),
      fetch_wiki = (\<lambda>e. WikiFailed)\<rparr>"

definition net_no_current :: network where
  "net_no_current =
     \<lparr>fetch_geocode = (\<lambda>q. Json \<lparr>results = Some [paris]\<rparr>),
      fetch_forecast = (\<lambda>lat lon. Json \<lparr>current = None, timezone = None\<rparr>),
      fetch_wiki = (\<lambda>e. WikiFailed)\<rparr>"

definition net_no_image :: network where
  "net_no_image =
     \<lparr>fetch_geocode = (\<lambda>q. Json \<lparr>results = Some [paris]\<rparr>),
      fetch_forecast = (\<lambda>lat lon. Json overcast),
      fetch_wiki = (\<lambda>e. WikiResponse False None)\<rparr>"

definition net_up :: network where
  "net_up =
     \<lparr>fetch_geocode = (\<lambda>q. Json \<lparr>results = Some [paris]\<rparr>),
      fetch_forecast = (\<lambda>lat lon. Json overcast),
      fetch_wiki = (\<lambda>e. WikiResponse True
         (Some \<lparr>originalimage = Some \<lparr>source = Some ''https://upload.wikimedia.org/paris.jpg''\<rparr>,
                thumbnail = None\<rparr>))\<rparr>"

definition net_down :: network where
  "net_down =
     \<lparr>fetch_geocode = (\<lambda>q. Failed),
      fetch_forecast = (\<lambda>lat lon. Failed),
      fetch_wiki = (\<lambda>e. WikiFailed)\<rparr>"

text \<open>The state of a user who has searched for two cities and has typed a third.\<close>

definition two_cities :: "json list" where
  "two_cities = [JStr ''paris'', JStr ''Oslo'']"

text \<open>A storage that works, with a given entry and no user.\<close>

definition stored :: "persisted \<Rightarrow> localStorage" where
  "stored p = \<lparr>weather_user = None, weather_search_history = p, denied = False, full = False\<rparr>"

definition typed :: "string \<Rightarrow> state" where
  "typed c =
     (initial_state (stored (JsonText (JArr two_cities))))
       \<lparr>city := JStr c, searchHistory := two_cities\<rparr>"

text \<open>The same state in a browser whose storage takes no more.\<close>

definition typed_full :: "string \<Rightarrow> state" where
  "typed_full c = (typed c)\<lparr>storage := (storage (typed c))\<lparr>full := True\<rparr>\<rparr>"

text \<open>A longer history, the snapshot of a search, and a formatter.\<close>

definition six_cities :: "json list" where
  "six_cities = [JStr ''Paris'', JStr ''Oslo'', JStr ''Rome'', JStr ''Lima'', JStr ''Cairo'', JStr ''Quito'']"

text \<open>
  A stand-in for the formatter of a browser that knows two time zones: it prints the
  time zone it was made for, and the constructor raises on any other.
\<close>

definition zone_stamp :: format where
  "zone_stamp fmt =
     (if timeZone fmt \<in> set [''UTC'', ''Europe/Paris''] then Some (\<lambda>now. timeZone fmt) else None)"

definition paris_snapshot :: WeatherResponse where
  "paris_snapshot =
     \<lparr>location = ''Paris, France'', temperature = 12.3, windSpeed = 7.4,
      weatherDescription = ''Overcast'', timezone = Some ''Europe/Paris'',
      imageUrl = None,
      fallbackImageUrl = Some ''https://loremflickr.com/1600/900/Paris%20France%20skyline''\<rparr>"

definition kyiv_snapshot :: WeatherResponse where
  "kyiv_snapshot =
     \<lparr>location = ''Kyiv, Ukraine'', temperature = 9.1, windSpeed = 11.2,
      weatherDescription = ''Fog'', timezone = Some ''Europe/Kyiv'',
      imageUrl = None,
      fallbackImageUrl = Some ''https://loremflickr.com/1600/900/Kyiv%20Ukraine%20skyline''\<rparr>"

section \<open>Facts about running actions\<close>

lemmas sample_defs = typed_def initial_state_def two_cities_def latin1_def latin1_trim_def
  is_space_def lower_char_def unreserved_def hex_digit_def percent_def encode_char_def
  paris_def overcast_def net_unknown_def net_no_current_def net_no_image_def net_up_def net_down_def
  stored_def typed_full_def can_write_def can_read_def

lemmas submit_eval = submit_def onSubmit_def try_body_def forecast_lookup_def show_weather_def
  image_lookup_def record_search_def first_result_def pick_image_def image_source_def
  next_result_def background_of_def fallback_image_url_def weatherCodeMap_def
  MAX_STORED_HISTORY_ITEMS_def Let_def

lemma run_Nil [simp]: "run s [] = s"
  by (simp add: run_def)

lemma run_Cons [simp]: "run s (a # acts) = run (apply_action s a) acts"
  by (simp add: run_def)

lemma run_append: "run s (xs @ ys) = run (run s xs) ys"
  by (simp add: run_def)

lemma requests_Nil [simp]: "requests [] = []"
  by (simp add: requests_def)

lemma requests_Cons [simp]:
  "requests (a # acts) = (case a of Fetch r \<Rightarrow> r # requests acts | _ \<Rightarrow> requests acts)"
  by (cases a) (simp_all add: requests_def)

lemma requests_append [simp]: "requests (xs @ ys) = requests xs @ requests ys"
  by (simp add: requests_def)

section \<open>The loading flag along a submission\<close>

lemma loading_run:
  "\<forall>a\<in>set acts. \<not> is_SetLoading a \<Longrightarrow> loading (run s acts) = loading s"
proof (induction acts arbitrary: s)
  case Nil
  then show ?case by simp
next
  case (Cons a acts)
  then show ?case by (cases a) simp_all
qed

lemma image_lookup_no_loading: "\<forall>a\<in>set (fst (image_lookup B N p)). \<not> is_SetLoading a"
  by (simp add: image_lookup_def split: option.splits)

lemma record_search_no_loading: "\<forall>a\<in>set (fst (record_search B c h st)). \<not> is_SetLoading a"
  by (simp add: record_search_def Let_def split: option.splits)

lemma show_weather_no_loading: "\<forall>a\<in>set (fst (show_weather B N c h st loc wd cur)). \<not> is_SetLoading a"
  using image_lookup_no_loading [of B N "name loc"] record_search_no_loading [of B c h st]
  by (auto simp add: show_weather_def Let_def split_def split: option.splits)

lemma forecast_lookup_no_loading: "\<forall>a\<in>set (fst (forecast_lookup B N c h st loc)). \<not> is_SetLoading a"
  using show_weather_no_loading [of B N c h st loc]
  by (auto simp add: forecast_lookup_def Let_def split_def split: reply.splits option.splits)

lemma try_body_no_loading: "\<forall>a\<in>set (fst (try_body B N s)). \<not> is_SetLoading a"
  using forecast_lookup_no_loading [of B N _ "searchHistory s" "storage s"]
  by (auto simp add: try_body_def Let_def split_def split: json.splits reply.splits option.splits)

lemma onSubmit_shape:
  "onSubmit B N s = [PreventDefault, SetLoading True] @ settle B N s @ [SetLoading False]"
  by (simp add: onSubmit_def settle_def split: prod.splits)

lemma settle_no_loading: "\<forall>a\<in>set (settle B N s). \<not> is_SetLoading a"
  using try_body_no_loading [of B N s] by (auto simp add: settle_def)

section \<open>The shape of a submission\<close>

lemma filter_history_Some:
  "filter_history B c h = Some kept \<Longrightarrow>
     list_all is_string h \<and> kept = filter (\<lambda>x. ci_key B x \<noteq> JStr (toLowerCase B c)) h"
proof (induction B c h arbitrary: kept rule: filter_history.induct)
  case (1 B cleanCity)
  then show ?case by simp
next
  case (2 B cleanCity item rest)
  then show ?case by (auto split: option.splits if_splits)
qed simp_all

lemma filter_history_None:
  "filter_history B c h = None \<longleftrightarrow> \<not> list_all is_string h"
  by (induction B c h rule: filter_history.induct) (auto split: option.splits)

lemma run_quiet:
  "list_all quiet acts \<Longrightarrow>
     error (run s acts) = error s \<and> searchHistory (run s acts) = searchHistory s \<and>
     storage (run s acts) = storage s \<and> loading (run s acts) = loading s \<and> city (run s acts) = city s"
proof (induction acts arbitrary: s)
  case Nil
  then show ?case by simp
next
  case (Cons a acts)
  then show ?case by (cases a) simp_all
qed

lemma shape_prepend:
  assumes "outcome_shape B c h st r" and "list_all quiet sent"
  shows "outcome_shape B c h st (sent @ fst r, snd r)"
proof -
  from assms(1) obtain pre where pre: "list_all quiet pre"
    and r: "r = (pre @ fst (record_search B c h st), snd (record_search B c h st)) \<or>
       r = (pre, Thrown) \<or> (\<exists>msg. msg \<noteq> [] \<and> r = (pre @ [SetError msg], Returned))"
    unfolding outcome_shape_def by blast
  from pre assms(2) have "list_all quiet (sent @ pre)" by simp
  moreover from r have "(sent @ fst r, snd r) = ((sent @ pre) @ fst (record_search B c h st), snd (record_search B c h st)) \<or>
       (sent @ fst r, snd r) = (sent @ pre, Thrown) \<or>
       (\<exists>msg. msg \<noteq> [] \<and> (sent @ fst r, snd r) = ((sent @ pre) @ [SetError msg], Returned))"
    by auto
  ultimately show ?thesis unfolding outcome_shape_def by blast
qed

lemma image_lookup_quiet: "list_all quiet (fst (image_lookup B N p))"
  by (simp add: image_lookup_def split: option.splits)

lemma show_weather_shape: "outcome_shape B c h st (show_weather B N c h st loc wd cur)"
proof (cases "encodeURIComponent B (name loc @ '' '' @ country loc @ '' skyline'')")
  case None
  then have "show_weather B N c h st loc wd cur = ([], Thrown)"
    by (simp add: show_weather_def)
  then show ?thesis unfolding outcome_shape_def
    by (intro exI [of _ "[]"]) simp
next
  case (Some encoded)
  let ?img = "image_lookup B N (name loc)"
  let ?next = "next_result loc wd cur (snd ?img) (fallback_image_url encoded)"
  let ?pre = "fst ?img @ [SetResult (Some ?next), SetBgImageUrl (background_of ?next)]"
  from Some have "show_weather B N c h st loc wd cur =
      (?pre @ fst (record_search B c h st), snd (record_search B c h st))"
    by (simp add: show_weather_def Let_def split_def)
  moreover have "list_all quiet ?pre"
    using image_lookup_quiet [of B N "name loc"] by simp
  ultimately show ?thesis unfolding outcome_shape_def by blast
qed

lemma early_return_shape:
  "msg \<noteq> [] \<Longrightarrow> list_all quiet sent \<Longrightarrow> outcome_shape B c h st (sent @ [SetError msg], Returned)"
  unfolding outcome_shape_def by blast

lemma thrown_shape: "list_all quiet sent \<Longrightarrow> outcome_shape B c h st (sent, Thrown)"
  unfolding outcome_shape_def by blast

lemma forecast_lookup_shape: "outcome_shape B c h st (forecast_lookup B N c h st loc)"
proof -
  let ?sent = "[Fetch (ForecastRequest (latitude loc) (longitude loc))]"
  have sent: "list_all quiet ?sent" by simp
  show ?thesis
  proof (cases "fetch_forecast N (latitude loc) (longitude loc)")
    case Failed
    then show ?thesis
      using thrown_shape [OF sent] by (simp add: forecast_lookup_def)
  next
    case (Json wd)
    show ?thesis
    proof (cases "current wd")
      case None
      with Json show ?thesis
        using early_return_shape [OF _ sent, of "''Weather unavailable.''"]
        by (simp add: forecast_lookup_def)
    next
      case (Some cur)
      with Json show ?thesis
        using shape_prepend [OF show_weather_shape sent, of B c h st N loc wd cur]
        by (simp add: forecast_lookup_def split_def Let_def)
    qed
  qed
qed

lemma try_body_shape: "outcome_shape B (cleanCity_of B s) (searchHistory s) (storage s) (try_body B N s)"
proof (cases "\<exists>c. city s = JStr c")
  case False
  then have "try_body B N s = ([], Thrown)"
    by (cases "city s") (simp_all add: try_body_def)
  then show ?thesis using thrown_shape [of "[]"] by simp
next
  case True
  then obtain c where c: "city s = JStr c" by blast
  then have clean: "cleanCity_of B s = trim B c" by (simp add: cleanCity_of_def)
  show ?thesis
  proof (cases "encodeURIComponent B (trim B c)")
    case None
    with c have "try_body B N s = ([], Thrown)" by (simp add: try_body_def)
    then show ?thesis using thrown_shape [of "[]"] by simp
  next
    case (Some q)
    let ?sent = "[Fetch (GeocodeRequest q)]"
    have sent: "list_all quiet ?sent" by simp
    show ?thesis
    proof (cases "fetch_geocode N q")
      case Failed
      with c Some show ?thesis
        using thrown_shape [OF sent] by (simp add: try_body_def)
    next
      case (Json gd)
      show ?thesis
      proof (cases "first_result gd")
        case None
        with c Some Json show ?thesis
          using early_return_shape [OF _ sent, of "''City not found.''"]
          by (simp add: try_body_def)
      next
        case (Some loc)
        with c \<open>encodeURIComponent B (trim B c) = Some q\<close> Json show ?thesis
          using shape_prepend [OF forecast_lookup_shape sent, of B "trim B c" "searchHistory s" "storage s" N loc]
          by (simp add: try_body_def split_def Let_def clean)
      qed
    qed
  qed
qed

text \<open>What a submission does to error, history and storage, from the shape.\<close>

lemma submit_unfold:
  "submit B N s =
     run s ([PreventDefault, SetLoading True, SetError [], SetResult None] @ fst (try_body B N s) @
       (if snd (try_body B N s) = Thrown then [SetError ''Unable to connect. Please try again.''] else []) @
       [SetLoading False])"
  by (simp add: submit_def onSubmit_def split_def)

lemma record_search_cases:
  "(c = [] \<and> record_search B c h st = ([], Returned)) \<or>
   (c \<noteq> [] \<and> filter_history B c h = None \<and> record_search B c h st = ([], Thrown)) \<or>
   (c \<noteq> [] \<and> (\<exists>kept. filter_history B c h = Some kept \<and>
      record_search B c h st =
        ([SetSearchHistory (take 30 (JStr c # kept)), SetItemHistory (JArr (take 30 (JStr c # kept)))],
         if can_write st then Returned else Thrown)))"
  by (cases "filter_history B c h") (simp_all add: record_search_def MAX_STORED_HISTORY_ITEMS_def Let_def)

text \<open>
  What a submission leaves of the message, the history and the storage: nothing is
  recorded, or the new history is set and written, or it is set and the write raises.
\<close>

lemma submit_history:
  "(error (submit B N s) = [] \<and> cleanCity_of B s \<noteq> [] \<longrightarrow>
      can_write (storage s) \<and>
      (\<exists>kept. filter_history B (cleanCity_of B s) (searchHistory s) = Some kept \<and>
         searchHistory (submit B N s) = take 30 (JStr (cleanCity_of B s) # kept) \<and>
         storage (submit B N s) =
           (storage s)\<lparr>weather_search_history := JsonText (JArr (take 30 (JStr (cleanCity_of B s) # kept)))\<rparr>)) \<and>
   (error (submit B N s) \<noteq> [] \<or> cleanCity_of B s = [] \<longrightarrow>
      storage (submit B N s) = storage s \<and>
      (searchHistory (submit B N s) = searchHistory s \<or>
       (\<not> can_write (storage s) \<and> cleanCity_of B s \<noteq> [] \<and>
        error (submit B N s) = ''Unable to connect. Please try again.'' \<and>
        (\<exists>kept. filter_history B (cleanCity_of B s) (searchHistory s) = Some kept \<and>
           searchHistory (submit B N s) = take 30 (JStr (cleanCity_of B s) # kept)))))"
proof -
  let ?c = "cleanCity_of B s" and ?h = "searchHistory s" and ?st = "storage s"
  from try_body_shape [of B s N] obtain pre where pre: "list_all quiet pre"
    and r: "try_body B N s = (pre @ fst (record_search B ?c ?h ?st), snd (record_search B ?c ?h ?st)) \<or>
       try_body B N s = (pre, Thrown) \<or>
       (\<exists>msg. msg \<noteq> [] \<and> try_body B N s = (pre @ [SetError msg], Returned))"
    unfolding outcome_shape_def by blast
  note q = run_quiet [OF pre]
  from r consider
      (reached) "try_body B N s = (pre @ fst (record_search B ?c ?h ?st), snd (record_search B ?c ?h ?st))"
    | (thrown) "try_body B N s = (pre, Thrown)"
    | (early) msg where "msg \<noteq> []" "try_body B N s = (pre @ [SetError msg], Returned)"
    by blast
  then show ?thesis
  proof cases
    case reached
    from record_search_cases [of ?c B ?h ?st] show ?thesis
      by (elim disjE conjE exE) (simp_all add: submit_unfold reached run_append q)
  next
    case thrown
    then show ?thesis by (simp add: submit_unfold run_append q)
  next
    case early
    then show ?thesis by (simp add: submit_unfold run_append q)
  qed
qed

lemma submit_history_cases:
  "searchHistory (submit B N s) = searchHistory s \<or>
   (cleanCity_of B s \<noteq> [] \<and>
    (\<exists>kept. filter_history B (cleanCity_of B s) (searchHistory s) = Some kept \<and>
       searchHistory (submit B N s) = take 30 (JStr (cleanCity_of B s) # kept)))"
  using submit_history [of B N s]
  by (cases "error (submit B N s) = [] \<and> cleanCity_of B s \<noteq> []") auto

lemma submit_storage_cases:
  "storage (submit B N s) = storage s \<or>
   (cleanCity_of B s \<noteq> [] \<and>
    (\<exists>kept. filter_history B (cleanCity_of B s) (searchHistory s) = Some kept \<and>
       storage (submit B N s) =
         (storage s)\<lparr>weather_search_history := JsonText (JArr (take 30 (JStr (cleanCity_of B s) # kept)))\<rparr>))"
  using submit_history [of B N s]
  by (cases "error (submit B N s) = [] \<and> cleanCity_of B s \<noteq> []") auto

section \<open>The history through submissions and startup\<close>

lemma submit_entries:
  "x \<in> set (searchHistory (submit B N s)) \<Longrightarrow>
     x \<in> set (searchHistory s) \<or> (\<exists>c. city s = JStr c \<and> x = JStr (trim B c) \<and> trim B c \<noteq> [])"
proof -
  assume x: "x \<in> set (searchHistory (submit B N s))"
  from submit_history_cases [of B N s] show ?thesis
  proof (elim disjE conjE exE)
    assume "searchHistory (submit B N s) = searchHistory s"
    with x show ?thesis by simp
  next
    fix kept
    assume clean: "cleanCity_of B s \<noteq> []"
      and kept: "filter_history B (cleanCity_of B s) (searchHistory s) = Some kept"
      and h: "searchHistory (submit B N s) = take 30 (JStr (cleanCity_of B s) # kept)"
    from clean obtain c where c: "city s = JStr c" "trim B c \<noteq> []" "cleanCity_of B s = trim B c"
      by (cases "city s") (simp_all add: cleanCity_of_def)
    from x h have "x = JStr (trim B c) \<or> x \<in> set (take 29 kept)"
      by (simp add: c)
    moreover have "set (take 29 kept) \<subseteq> set (searchHistory s)"
      using filter_history_Some [OF kept] set_take_subset [of 29 kept] by auto
    ultimately show ?thesis using c by blast
  qed
qed

lemma searches_entries:
  "x \<in> set (searchHistory (searches B s subs)) \<Longrightarrow>
     x \<in> set (searchHistory s) \<or> (\<exists>c. x = JStr (trim B c) \<and> trim B c \<noteq> [])"
proof (induction subs arbitrary: s)
  case Nil
  then show ?case by simp
next
  case (Cons sub subs)
  obtain c N where sub: "sub = (c, N)" by (cases sub)
  from Cons.prems have "x \<in> set (searchHistory (searches B (submit B N (apply_action s (SetCity c))) subs))"
    by (simp add: sub)
  from Cons.IH [OF this] show ?case
    using submit_entries [of x B N "apply_action s (SetCity c)"] by auto
qed

lemma startup_history:
  "searchHistory (startup st) =
     (case weather_search_history st of
        JsonText (JArr items) \<Rightarrow> if can_read st then take 30 items else []
      | _ \<Rightarrow> [])"
proof -
  have user: "searchHistory (run s (case weather_user st of None \<Rightarrow> []
      | Some savedUser \<Rightarrow> if savedUser \<noteq> [] then [SetLoggedInUser savedUser] else [])) = searchHistory s" for s
    by (simp split: option.splits)
  show ?thesis
    by (simp add: startup_def load_effect_def guarded_parse_def parse_history_def Let_def run_append
        user initial_state_def MAX_STORED_HISTORY_ITEMS_def
        split: persisted.splits json.splits)
qed

lemma startup_storage: "storage (startup st) = st"
proof -
  have user: "storage (run s (case weather_user st of None \<Rightarrow> []
      | Some savedUser \<Rightarrow> if savedUser \<noteq> [] then [SetLoggedInUser savedUser] else [])) = storage s" for s
    by (simp split: option.splits)
  show ?thesis
    by (simp add: startup_def load_effect_def guarded_parse_def parse_history_def Let_def run_append
        user initial_state_def split: persisted.splits json.splits)
qed

lemma recorded_distinct:
  assumes "distinct (map (ci_key B) h)" and "filter_history B c h = Some kept"
  shows "distinct (map (ci_key B) (take 30 (JStr c # kept)))"
proof -
  from filter_history_Some [OF assms(2)]
  have kept: "kept = filter (\<lambda>x. ci_key B x \<noteq> JStr (toLowerCase B c)) h" by simp
  have "distinct (map (ci_key B) kept)"
    unfolding kept using assms(1) by (rule distinct_map_filter)
  moreover have "ci_key B (JStr c) \<notin> set (map (ci_key B) kept)"
    unfolding kept by auto
  ultimately have "distinct (map (ci_key B) (JStr c # kept))" by simp
  then have "distinct (take 30 (map (ci_key B) (JStr c # kept)))" by (rule distinct_take)
  then show ?thesis by (simp only: take_map)
qed

lemma submit_inv:
  assumes "history_inv B (searchHistory s)"
  shows "history_inv B (searchHistory (submit B N s))"
    and "persisted_inv B (weather_search_history (storage s)) \<Longrightarrow>
         persisted_inv B (weather_search_history (storage (submit B N s)))"
proof -
  from assms have d: "distinct (map (ci_key B) (searchHistory s))"
    by (simp add: history_inv_def)
  from submit_history_cases [of B N s] show "history_inv B (searchHistory (submit B N s))"
  proof (elim disjE conjE exE)
    assume "searchHistory (submit B N s) = searchHistory s"
    with assms show ?thesis by simp
  next
    fix kept
    assume kept: "filter_history B (cleanCity_of B s) (searchHistory s) = Some kept"
      and h: "searchHistory (submit B N s) = take 30 (JStr (cleanCity_of B s) # kept)"
    from recorded_distinct [OF d kept] show ?thesis
      by (simp only: h history_inv_def MAX_STORED_HISTORY_ITEMS_def) simp
  qed
  show "persisted_inv B (weather_search_history (storage (submit B N s)))"
    if p: "persisted_inv B (weather_search_history (storage s))"
    using submit_storage_cases [of B N s]
  proof (elim disjE conjE exE)
    assume "storage (submit B N s) = storage s"
    with p show ?thesis by simp
  next
    fix kept
    assume kept: "filter_history B (cleanCity_of B s) (searchHistory s) = Some kept"
      and st: "storage (submit B N s) = (storage s)\<lparr>weather_search_history :=
           JsonText (JArr (take 30 (JStr (cleanCity_of B s) # kept)))\<rparr>"
    from recorded_distinct [OF d kept] show ?thesis
      by (simp only: st persisted_inv_def) simp
  qed
qed

lemma searches_inv:
  "history_inv B (searchHistory s) \<Longrightarrow> persisted_inv B (weather_search_history (storage s)) \<Longrightarrow>
     history_inv B (searchHistory (searches B s subs)) \<and>
     persisted_inv B (weather_search_history (storage (searches B s subs)))"
proof (induction subs arbitrary: s)
  case Nil
  then show ?case by simp
next
  case (Cons sub subs)
  obtain c N where sub: "sub = (c, N)" by (cases sub)
  let ?s = "apply_action s (SetCity c)"
  from Cons.prems have "history_inv B (searchHistory ?s)"
    and "persisted_inv B (weather_search_history (storage ?s))" by simp_all
  then have "history_inv B (searchHistory (submit B N ?s))"
    and "persisted_inv B (weather_search_history (storage (submit B N ?s)))"
    by (simp_all add: submit_inv)
  from Cons.IH [OF this] show ?case by (simp add: sub)
qed

lemma startup_inv:
  "persisted_inv B (weather_search_history st) \<Longrightarrow> history_inv B (searchHistory (startup st))"
proof -
  assume p: "persisted_inv B (weather_search_history st)"
  show ?thesis
  proof (cases "\<exists>items. weather_search_history st = JsonText (JArr items)")
    case False
    then have "searchHistory (startup st) = []"
      by (auto simp add: startup_history split: persisted.splits json.splits)
    then show ?thesis by (simp add: history_inv_def)
  next
    case True
    then obtain items where items: "weather_search_history st = JsonText (JArr items)" by blast
    with p have "distinct (map (ci_key B) items)" by (simp add: persisted_inv_def)
    then have "distinct (take 30 (map (ci_key B) items))" by (rule distinct_take)
    then have "distinct (map (ci_key B) (take 30 items))" by (simp only: take_map)
    with items show ?thesis
      by (simp add: startup_history history_inv_def MAX_STORED_HISTORY_ITEMS_def)
  qed
qed

section \<open>The submission that shows the weather\<close>

lemma image_lookup_frame:
  "result (run s (fst (image_lookup B N p))) = result s \<and>
   error (run s (fst (image_lookup B N p))) = error s \<and>
   bgImageUrl (run s (fst (image_lookup B N p))) = bgImageUrl s"
  by (simp add: image_lookup_def split: option.splits)

lemma record_search_frame:
  "result (run s (fst (record_search B c h st))) = result s \<and>
   error (run s (fst (record_search B c h st))) = error s \<and>
   bgImageUrl (run s (fst (record_search B c h st))) = bgImageUrl s"
  using record_search_cases [of c B h st] by auto

lemma record_search_returns:
  "snd (record_search B c h st) = Returned \<longleftrightarrow>
     c = [] \<or> (list_all is_string h \<and> can_write st)"
  using record_search_cases [of c B h st] filter_history_None [of B c h]
  by (auto split: if_splits)

text \<open>The submission that finds a place and its weather, up to the recording.\<close>

lemma weather_shown:
  assumes "city s = JStr c"
    and "encodeURIComponent B (trim B c) = Some q"
    and "fetch_geocode N q = Json geocodeData"
    and "first_result geocodeData = Some loc"
    and "fetch_forecast N (latitude loc) (longitude loc) = Json weatherData"
    and "current weatherData = Some cur"
    and "encodeURIComponent B (name loc @ '' '' @ country loc @ '' skyline'') = Some encoded"
  shows "try_body B N s =
      ([Fetch (GeocodeRequest q), Fetch (ForecastRequest (latitude loc) (longitude loc))] @
       fst (image_lookup B N (name loc)) @
       [SetResult (Some (next_result loc weatherData cur (snd (image_lookup B N (name loc)))
          (fallback_image_url encoded))),
        SetBgImageUrl (background_of (next_result loc weatherData cur (snd (image_lookup B N (name loc)))
          (fallback_image_url encoded)))] @
       fst (record_search B (trim B c) (searchHistory s) (storage s)),
       snd (record_search B (trim B c) (searchHistory s) (storage s)))"
  using assms
  by (simp add: try_body_def forecast_lookup_def show_weather_def Let_def split_def)

lemma weather_shown_error:
  assumes "city s = JStr c"
    and "encodeURIComponent B (trim B c) = Some q"
    and "fetch_geocode N q = Json geocodeData"
    and "first_result geocodeData = Some loc"
    and "fetch_forecast N (latitude loc) (longitude loc) = Json weatherData"
    and "current weatherData = Some cur"
    and "encodeURIComponent B (name loc @ '' '' @ country loc @ '' skyline'') = Some encoded"
  shows "error (submit B N s) =
      (if snd (record_search B (trim B c) (searchHistory s) (storage s)) = Thrown
       then ''Unable to connect. Please try again.'' else [])"
  by (simp add: submit_unfold weather_shown [OF assms] run_append record_search_frame image_lookup_frame)

section \<open>Histories of strings, and the handlers of the input\<close>

lemma submit_strings:
  "list_all is_string (searchHistory s) \<Longrightarrow> list_all is_string (searchHistory (submit B N s))"
proof -
  assume h: "list_all is_string (searchHistory s)"
  from submit_history_cases [of B N s] show ?thesis
  proof (elim disjE conjE exE)
    assume "searchHistory (submit B N s) = searchHistory s"
    with h show ?thesis by simp
  next
    fix kept
    assume kept: "filter_history B (cleanCity_of B s) (searchHistory s) = Some kept"
      and new: "searchHistory (submit B N s) = take 30 (JStr (cleanCity_of B s) # kept)"
    from filter_history_Some [OF kept] h have "list_all is_string kept"
      by (simp add: list_all_iff)
    then have "list_all is_string (JStr (cleanCity_of B s) # kept)" by simp
    then have "list_all is_string (take 30 (JStr (cleanCity_of B s) # kept))"
      unfolding list_all_iff using in_set_takeD by fast
    with new show ?thesis by simp
  qed
qed

lemma submit_length:
  "length (searchHistory s) \<le> 30 \<Longrightarrow> length (searchHistory (submit B N s)) \<le> 30"
  using submit_history_cases [of B N s] by auto

lemma searches_strings:
  "list_all is_string (searchHistory s) \<Longrightarrow> length (searchHistory s) \<le> 30 \<Longrightarrow>
     list_all is_string (searchHistory (searches B s subs)) \<and>
     length (searchHistory (searches B s subs)) \<le> 30"
proof (induction subs arbitrary: s)
  case Nil
  then show ?case by simp
next
  case (Cons sub subs)
  obtain c N where sub: "sub = (c, N)" by (cases sub)
  let ?s = "apply_action s (SetCity c)"
  from Cons.prems have "list_all is_string (searchHistory ?s)" and "length (searchHistory ?s) \<le> 30"
    by simp_all
  then have "list_all is_string (searchHistory (submit B N ?s))"
    and "length (searchHistory (submit B N ?s)) \<le> 30"
    by (simp_all add: submit_strings submit_length)
  from Cons.IH [OF this] show ?case by (simp add: sub)
qed

lemma startup_strings:
  "strings_stored (weather_search_history st) \<Longrightarrow>
     list_all is_string (searchHistory (startup st)) \<and> length (searchHistory (startup st)) \<le> 30"
proof -
  assume p: "strings_stored (weather_search_history st)"
  have "list_all is_string (take 30 items)" if "list_all is_string items" for items
    using that unfolding list_all_iff using in_set_takeD by fast
  with p show ?thesis
    by (auto simp add: strings_stored_def well_formed_def startup_history
        split: persisted.splits json.splits)
qed

lemma strings_renderable: "list_all is_string h \<Longrightarrow> list_all renderable h"
proof -
  have "renderable x" if "is_string x" for x
    using that by (cases x) simp_all
  then show "list_all is_string h \<Longrightarrow> list_all renderable h"
    by (simp add: list_all_iff)
qed

lemma ui_frame:
  "requests (ui_actions evs) = [] \<and>
   result (run s (ui_actions evs)) = result s \<and> error (run s (ui_actions evs)) = error s \<and>
   loading (run s (ui_actions evs)) = loading s \<and>
   searchHistory (run s (ui_actions evs)) = searchHistory s \<and>
   storage (run s (ui_actions evs)) = storage s"
proof (induction evs arbitrary: s)
  case Nil
  then show ?case by (simp add: ui_actions_def)
next
  case (Cons ev evs)
  have "ui_actions (ev # evs) = ui_handler ev @ ui_actions evs"
    by (simp add: ui_actions_def)
  with Cons [of "run s (ui_handler ev)"] show ?case
    by (cases ev) (simp_all add: run_append onMouseDown_def)
qed

section \<open>The clock through renders and ticks\<close>

lemma active_timezone_frame [simp]:
  "active_timezone (s\<lparr>interval := i\<rparr>) = active_timezone s"
  "active_timezone (s\<lparr>cityTime := t\<rparr>) = active_timezone s"
  by (simp_all add: active_timezone_def result_timezone_def)

lemma apply_action_clock:
  "interval (apply_action s a) = interval s \<and> cityTime (apply_action s a) = cityTime s"
  by (cases a) simp_all

lemma run_clock: "interval (run s acts) = interval s \<and> cityTime (run s acts) = cityTime s"
proof (induction acts arbitrary: s)
  case Nil
  then show ?case by simp
next
  case (Cons a acts)
  then show ?case using apply_action_clock [of s a] by simp
qed

lemma clock_effect_inv:
  "clock_effect F now (clock_cleanup s) = Some s' \<Longrightarrow> clock_inv F s'"
  by (auto simp add: clock_inv_def clock_effect_def clock_cleanup_def split: option.splits)

lemma commit_inv: "clock_inv F s \<Longrightarrow> page_inv F (commit F now s (apply_action s a))"
proof (cases "result_timezone (apply_action s a) = result_timezone s")
  case False
  then show ?thesis
    by (auto simp add: commit_def page_inv_def clock_effect_inv split: option.splits)
next
  case True
  assume "clock_inv F s"
  moreover from True have "active_timezone (apply_action s a) = active_timezone s"
    by (simp add: active_timezone_def)
  ultimately show ?thesis
    using True apply_action_clock [of s a]
    by (auto simp add: commit_def page_inv_def clock_inv_def split: option.splits)
qed

lemma tick_inv: "clock_inv F s \<Longrightarrow> clock_inv F (tick now s)"
  by (auto simp add: clock_inv_def tick_def split: option.splits)

lemma step_inv: "page_inv F pg \<Longrightarrow> page_inv F (step F pg ev)"
proof (cases pg)
  case Unmounted
  then show ?thesis by (simp add: page_inv_def)
next
  case (Mounted s)
  assume "page_inv F pg"
  with Mounted have inv: "clock_inv F s" by (simp add: page_inv_def)
  show ?thesis
  proof (cases ev)
    case (Dispatch now a)
    with Mounted commit_inv [OF inv, of now a] show ?thesis
      by (simp add: page_inv_def)
  next
    case (Tick now)
    with Mounted tick_inv [OF inv, of now] show ?thesis
      by (simp add: page_inv_def)
  qed
qed

lemma steps_inv: "page_inv F pg \<Longrightarrow> page_inv F (foldl (step F) pg events)"
  by (induction events arbitrary: pg) (simp_all add: step_inv)

lemma mount_inv: "page_inv F (mount F now st)"
proof -
  have "interval (startup st) = None"
    using run_clock [of "initial_state st" "fst (load_effect st)"]
    by (simp add: startup_def initial_state_def)
  then have "clock_cleanup (startup st) = startup st"
    by (cases "startup st") (simp add: clock_cleanup_def)
  then have "clock_effect F now (startup st) = Some s' \<Longrightarrow> clock_inv F s'" for s'
    using clock_effect_inv [of F now "startup st" s'] by simp
  then show ?thesis
    by (simp add: mount_def page_inv_def split: option.splits)
qed

section \<open>The claims\<close>

text \<open>
  Claim C1. When the geocode lookup of a submission answers with no result (no
  \<^verbatim>\<open>results\<close>, or an empty list), the message is exactly "City not found.", the result
  stays null, and the geocode request is the only request sent: no forecast request
  and no image request.
\<close>

theorem city_not_found:
  assumes "city s = JStr c"
    and "encodeURIComponent B (trim B c) = Some q"
    and "fetch_geocode N q = Json geocodeData"
    and "results geocodeData = None \<or> results geocodeData = Some []"
  shows "error (submit B N s) = ''City not found.'' \<and> result (submit B N s) = None \<and>
         requests (onSubmit B N s) = [GeocodeRequest q]"
  using assms
  by (auto simp add: submit_def onSubmit_def try_body_def first_result_def)

theorem city_not_found_witness:
  "error (submit latin1 net_unknown (typed ''Zzqxnotacity'')) = ''City not found.'' \<and>
   result (submit latin1 net_unknown (typed ''Zzqxnotacity'')) = None \<and>
   requests (onSubmit latin1 net_unknown (typed ''Zzqxnotacity'')) = [GeocodeRequest ''Zzqxnotacity'']"
proof -
  have "city (typed ''Zzqxnotacity'') = JStr ''Zzqxnotacity''"
    by (simp add: sample_defs)
  moreover have "encodeURIComponent latin1 (trim latin1 ''Zzqxnotacity'') = Some ''Zzqxnotacity''"
    by (simp add: sample_defs)
  moreover have "fetch_geocode net_unknown ''Zzqxnotacity'' = Json \<lparr>results = None\<rparr>"
    by (simp add: sample_defs)
  moreover have "results \<lparr>results = None\<rparr> = None \<or> results \<lparr>results = None\<rparr> = Some []"
    by simp
  ultimately show ?thesis by (rule city_not_found)
qed

text \<open>
  Claim C2. When the geocode lookup finds a place and the forecast response has no
  \<^verbatim>\<open>current\<close>, the message is exactly "Weather unavailable." and the result stays null;
  no image request is sent.
\<close>

theorem weather_unavailable:
  assumes "city s = JStr c"
    and "encodeURIComponent B (trim B c) = Some q"
    and "fetch_geocode N q = Json geocodeData"
    and "first_result geocodeData = Some loc"
    and "fetch_forecast N (latitude loc) (longitude loc) = Json weatherData"
    and "current weatherData = None"
  shows "error (submit B N s) = ''Weather unavailable.'' \<and> result (submit B N s) = None \<and>
         requests (onSubmit B N s) = [GeocodeRequest q, ForecastRequest (latitude loc) (longitude loc)]"
  using assms
  by (auto simp add: submit_def onSubmit_def try_body_def forecast_lookup_def)

theorem weather_unavailable_witness:
  "error (submit latin1 net_no_current (typed '' Paris '')) = ''Weather unavailable.'' \<and>
   result (submit latin1 net_no_current (typed '' Paris '')) = None \<and>
   requests (onSubmit latin1 net_no_current (typed '' Paris '')) =
     [GeocodeRequest ''Paris'', ForecastRequest (latitude paris) (longitude paris)]"
proof -
  have "city (typed '' Paris '') = JStr '' Paris ''"
    by (simp add: sample_defs)
  moreover have "encodeURIComponent latin1 (trim latin1 '' Paris '') = Some ''Paris''"
    by (simp add: sample_defs)
  moreover have "fetch_geocode net_no_current ''Paris'' = Json \<lparr>results = Some [paris]\<rparr>"
    by (simp add: net_no_current_def)
  moreover have "first_result \<lparr>results = Some [paris]\<rparr> = Some paris"
    by (simp add: first_result_def)
  moreover have "fetch_forecast net_no_current (latitude paris) (longitude paris) =
      Json \<lparr>current = None, timezone = None\<rparr>"
    by (simp add: net_no_current_def)
  moreover have "current \<lparr>current = None, timezone = None\<rparr> = None"
    by simp
  ultimately show ?thesis by (rule weather_unavailable)
qed

text \<open>
  Claim C3, as amended. When geocode and forecast succeed, a failure of the image lookup
  in any of its ways does not stop the submission and adds no message: the snapshot is
  set, with a null \<^verbatim>\<open>imageUrl\<close> and with the \<^verbatim>\<open>fallbackImageUrl\<close> made of the fixed
  prefix and the encoding of "name country skyline", which is not empty and a function
  of the name and the country of the place alone; the background is that fallback; and
  the message at the end is the one that the same submission ends with on any network
  that answers the two mandatory lookups alike, whatever its image lookup does. The
  message is empty when the recording of the search, which follows, does not raise: the
  input trims to the empty string, or the history holds strings and the storage takes
  the write.
\<close>

theorem image_failure_swallowed:
  assumes "city s = JStr c"
    and "encodeURIComponent B (trim B c) = Some q"
    and "fetch_geocode N q = Json geocodeData"
    and "first_result geocodeData = Some loc"
    and "fetch_forecast N (latitude loc) (longitude loc) = Json weatherData"
    and "current weatherData = Some cur"
    and "encodeURIComponent B (name loc @ '' '' @ country loc @ '' skyline'') = Some encoded"
    and "image_lookup_fails B N (name loc)"
  shows "(\<exists>r. result (submit B N s) = Some r \<and> imageUrl r = None \<and>
              fallbackImageUrl r = Some (fallback_image_url encoded)) \<and>
         fallback_image_url encoded \<noteq> [] \<and>
         bgImageUrl (submit B N s) = fallback_image_url encoded \<and>
         (fetch_geocode N' = fetch_geocode N \<and> fetch_forecast N' = fetch_forecast N \<longrightarrow>
            error (submit B N' s) = error (submit B N s)) \<and>
         (trim B c = [] \<or> (list_all is_string (searchHistory s) \<and> can_write (storage s)) \<longrightarrow>
            snd (try_body B N s) = Returned \<and> error (submit B N s) = [])"
proof -
  have img: "snd (image_lookup B N (name loc)) = None"
    using assms(8)
    by (auto simp add: image_lookup_fails_def image_lookup_def pick_image_def
        split: option.splits wiki_reply.splits)
  note body = weather_shown [OF assms(1-7)]
  have shown: "(\<exists>r. result (submit B N s) = Some r \<and> imageUrl r = None \<and>
              fallbackImageUrl r = Some (fallback_image_url encoded)) \<and>
         fallback_image_url encoded \<noteq> [] \<and>
         bgImageUrl (submit B N s) = fallback_image_url encoded"
    by (simp add: submit_unfold body img run_append record_search_frame image_lookup_frame
        next_result_def background_of_def fallback_image_url_def)
  have same: "error (submit B N' s) = error (submit B N s)"
    if "fetch_geocode N' = fetch_geocode N \<and> fetch_forecast N' = fetch_forecast N"
  proof -
    from that assms have "fetch_geocode N' q = Json geocodeData"
      and "fetch_forecast N' (latitude loc) (longitude loc) = Json weatherData" by simp_all
    from weather_shown_error [OF assms(1,2) this(1) assms(4) this(2) assms(6,7)]
      weather_shown_error [OF assms(1-7)]
    show ?thesis by simp
  qed
  have quiet_end: "snd (try_body B N s) = Returned \<and> error (submit B N s) = []"
    if "trim B c = [] \<or> (list_all is_string (searchHistory s) \<and> can_write (storage s))"
  proof -
    from that have "snd (record_search B (trim B c) (searchHistory s) (storage s)) = Returned"
      by (simp add: record_search_returns)
    then show ?thesis
      using weather_shown_error [OF assms(1-7)] by (simp add: body)
  qed
  from shown same quiet_end show ?thesis by blast
qed

theorem image_failure_swallowed_witness:
  "(\<exists>r. result (submit latin1 net_no_image (typed '' Paris '')) = Some r \<and> imageUrl r = None \<and>
        fallbackImageUrl r = Some (fallback_image_url ''Paris%20France%20skyline'')) \<and>
   fallback_image_url ''Paris%20France%20skyline'' \<noteq> [] \<and>
   bgImageUrl (submit latin1 net_no_image (typed '' Paris '')) = fallback_image_url ''Paris%20France%20skyline'' \<and>
   error (submit latin1 net_up (typed '' Paris '')) = error (submit latin1 net_no_image (typed '' Paris '')) \<and>
   snd (try_body latin1 net_no_image (typed '' Paris '')) = Returned \<and>
   error (submit latin1 net_no_image (typed '' Paris '')) = []"
proof -
  have "city (typed '' Paris '') = JStr '' Paris ''"
    by (simp add: sample_defs)
  moreover have "encodeURIComponent latin1 (trim latin1 '' Paris '') = Some ''Paris''"
    by (simp add: sample_defs)
  moreover have "fetch_geocode net_no_image ''Paris'' = Json \<lparr>results = Some [paris]\<rparr>"
    by (simp add: net_no_image_def)
  moreover have "first_result \<lparr>results = Some [paris]\<rparr> = Some paris"
    by (simp add: first_result_def)
  moreover have "fetch_forecast net_no_image (latitude paris) (longitude paris) = Json overcast"
    by (simp add: net_no_image_def)
  moreover have "current overcast = Some \<lparr>temperature_2m = 12.3, wind_speed_10m = 7.4, weather_code = 3\<rparr>"
    by (simp add: overcast_def)
  moreover have "encodeURIComponent latin1 (name paris @ '' '' @ country paris @ '' skyline'') =
      Some ''Paris%20France%20skyline''"
    by (simp add: sample_defs)
  moreover have "image_lookup_fails latin1 net_no_image (name paris)"
    by (simp add: image_lookup_fails_def sample_defs)
  ultimately have "(\<exists>r. result (submit latin1 net_no_image (typed '' Paris '')) = Some r \<and> imageUrl r = None \<and>
        fallbackImageUrl r = Some (fallback_image_url ''Paris%20France%20skyline'')) \<and>
      fallback_image_url ''Paris%20France%20skyline'' \<noteq> [] \<and>
      bgImageUrl (submit latin1 net_no_image (typed '' Paris '')) = fallback_image_url ''Paris%20France%20skyline'' \<and>
      (fetch_geocode net_up = fetch_geocode net_no_image \<and>
       fetch_forecast net_up = fetch_forecast net_no_image \<longrightarrow>
         error (submit latin1 net_up (typed '' Paris '')) =
         error (submit latin1 net_no_image (typed '' Paris ''))) \<and>
      (trim latin1 '' Paris '' = [] \<or>
       (list_all is_string (searchHistory (typed '' Paris '')) \<and> can_write (storage (typed '' Paris ''))) \<longrightarrow>
         snd (try_body latin1 net_no_image (typed '' Paris '')) = Returned \<and>
         error (submit latin1 net_no_image (typed '' Paris '')) = [])"
    by (rule image_failure_swallowed)
  moreover have "fetch_geocode net_up = fetch_geocode net_no_image \<and>
      fetch_forecast net_up = fetch_forecast net_no_image"
    by (simp add: net_up_def net_no_image_def)
  moreover have "list_all is_string (searchHistory (typed '' Paris '')) \<and> can_write (storage (typed '' Paris ''))"
    by (simp add: sample_defs)
  ultimately show ?thesis by blast
qed

text \<open>
  Claim C3 as stated fails on the message: in a browser whose storage takes no more,
  geocode and forecast succeed, the image lookup answers 404, and the submission ends
  with the message of a lost connection, raised by \<^verbatim>\<open>setItem\<close> in the same \<^verbatim>\<open>try\<close>.
\<close>

theorem image_failure_then_full_storage:
  "first_result \<lparr>results = Some [paris]\<rparr> = Some paris \<and>
   current overcast \<noteq> None \<and>
   image_lookup_fails latin1 net_no_image (name paris) \<and>
   error (submit latin1 net_no_image (typed_full '' Paris '')) = ''Unable to connect. Please try again.''"
  by (simp add: first_result_def image_lookup_fails_def submit_eval sample_defs)

text \<open>
  Claim C4. In every submission, whatever the network answers and whatever raises:
  \<^verbatim>\<open>setLoading(true)\<close> is the first setter called; the loading flag is true after it and
  after each further action (request or setter) but the last; the last action is
  \<^verbatim>\<open>setLoading(false)\<close>, the only such call, so the flag is cleared exactly once and is
  false when the submission has settled. One submission is followed from its start to
  its end: the submit button is disabled while the flag is true (line 393), and
  submissions that overlap are outside the statement.
\<close>

theorem loading_flag_lifecycle:
  "take 2 (onSubmit B N s) = [PreventDefault, SetLoading True] \<and>
   (\<forall>n. 2 \<le> n \<and> n < length (onSubmit B N s) \<longrightarrow> loading (run s (take n (onSubmit B N s)))) \<and>
   last (onSubmit B N s) = SetLoading False \<and>
   count_list (onSubmit B N s) (SetLoading False) = 1 \<and>
   \<not> loading (submit B N s)"
proof -
  let ?mid = "settle B N s"
  have shape: "onSubmit B N s = [PreventDefault, SetLoading True] @ ?mid @ [SetLoading False]"
    by (rule onSubmit_shape)
  have quiet: "\<forall>a\<in>set ?mid. \<not> is_SetLoading a"
    by (rule settle_no_loading)
  have during: "loading (run s (take n (onSubmit B N s)))"
    if "2 \<le> n" and "n < length (onSubmit B N s)" for n
  proof -
    from that have n: "n - 2 \<le> length ?mid" by (simp add: shape)
    with that have "take n (onSubmit B N s) = [PreventDefault, SetLoading True] @ take (n - 2) ?mid"
      by (simp add: shape take_Cons' numeral_2_eq_2)
    moreover have "\<forall>a\<in>set (take (n - 2) ?mid). \<not> is_SetLoading a"
      using quiet by (meson in_set_takeD)
    ultimately show ?thesis
      by (simp add: run_append loading_run)
  qed
  have "count_list ?mid (SetLoading False) = 0"
    using quiet by (auto simp add: count_list_0_iff)
  then have once: "count_list (onSubmit B N s) (SetLoading False) = 1"
    by (simp add: shape)
  have "\<not> loading (submit B N s)"
    by (simp add: submit_def shape run_append)
  with during once show ?thesis
    by (simp add: shape)
qed

text \<open>The four ways out: the weather is shown, no city, no weather, no connection.\<close>

theorem loading_flag_lifecycle_witness:
  "take 2 (onSubmit latin1 net_up (typed '' Paris '')) = [PreventDefault, SetLoading True] \<and>
   loading (run (typed '' Paris '') (take 7 (onSubmit latin1 net_up (typed '' Paris '')))) \<and>
   last (onSubmit latin1 net_up (typed '' Paris '')) = SetLoading False \<and>
   count_list (onSubmit latin1 net_up (typed '' Paris '')) (SetLoading False) = 1 \<and>
   \<not> loading (submit latin1 net_up (typed '' Paris '')) \<and>
   count_list (onSubmit latin1 net_unknown (typed '' Paris '')) (SetLoading False) = 1 \<and>
   \<not> loading (submit latin1 net_unknown (typed '' Paris '')) \<and>
   count_list (onSubmit latin1 net_no_current (typed '' Paris '')) (SetLoading False) = 1 \<and>
   \<not> loading (submit latin1 net_no_current (typed '' Paris '')) \<and>
   count_list (onSubmit latin1 net_down (typed '' Paris '')) (SetLoading False) = 1 \<and>
   \<not> loading (submit latin1 net_down (typed '' Paris ''))"
proof -
  have "length (onSubmit latin1 net_up (typed '' Paris '')) = 12"
    by (simp add: submit_eval sample_defs)
  then have "2 \<le> (7::nat) \<and> 7 < length (onSubmit latin1 net_up (typed '' Paris ''))"
    by simp
  with loading_flag_lifecycle [of latin1 net_up "typed '' Paris ''"]
    loading_flag_lifecycle [of latin1 net_unknown "typed '' Paris ''"]
    loading_flag_lifecycle [of latin1 net_no_current "typed '' Paris ''"]
    loading_flag_lifecycle [of latin1 net_down "typed '' Paris ''"]
  show ?thesis
    by blast
qed

text \<open>
  Claim C5, as amended. A search is successful when it settles with no message; each
  failure sets one. After a successful search for a query, the trimmed input \<open>trim c\<close>,
  which is not empty: the history starts with the query, no other entry equals the
  query once both are lowercased, the history has at most 30 entries, and local storage
  holds that list. After a search that settles with a message, local storage is as it
  was, and so is the history when the message is "City not found." or "Weather
  unavailable.", or when the storage takes writes. The one failure that changes the
  history is the write to a storage that does not take it: \<^verbatim>\<open>setSearchHistory\<close> has
  been called with the new list when \<^verbatim>\<open>setItem\<close> raises, and the message is the one of
  a lost connection.
\<close>

theorem successful_search_recorded:
  "(city s = JStr c \<and> trim B c \<noteq> [] \<and> error (submit B N s) = [] \<longrightarrow>
      (\<exists>rest. searchHistory (submit B N s) = JStr (trim B c) # rest \<and>
         (\<forall>x\<in>set rest. \<exists>item. x = JStr item \<and> toLowerCase B item \<noteq> toLowerCase B (trim B c))) \<and>
      length (searchHistory (submit B N s)) \<le> 30 \<and>
      weather_search_history (storage (submit B N s)) = JsonText (JArr (searchHistory (submit B N s)))) \<and>
   (error (submit B N s) \<noteq> [] \<longrightarrow> storage (submit B N s) = storage s) \<and>
   (error (submit B N s) \<noteq> [] \<and>
    (can_write (storage s) \<or> error (submit B N s) \<noteq> ''Unable to connect. Please try again.'') \<longrightarrow>
      searchHistory (submit B N s) = searchHistory s) \<and>
   (error (submit B N s) \<noteq> [] \<and> searchHistory (submit B N s) \<noteq> searchHistory s \<longrightarrow>
      \<not> can_write (storage s) \<and>
      error (submit B N s) = ''Unable to connect. Please try again.'' \<and>
      (\<exists>c rest. city s = JStr c \<and> trim B c \<noteq> [] \<and>
         searchHistory (submit B N s) = JStr (trim B c) # rest \<and>
         (\<forall>x\<in>set rest. \<exists>item. x = JStr item \<and> toLowerCase B item \<noteq> toLowerCase B (trim B c))))"
proof -
  have others: "\<exists>item. x = JStr item \<and> toLowerCase B item \<noteq> toLowerCase B q"
    if "filter_history B q (searchHistory s) = Some kept" and "x \<in> set (take 29 kept)" for x q kept
  proof -
    from that(2) have "x \<in> set kept" by (rule in_set_takeD)
    with filter_history_Some [OF that(1)] have "is_string x" and "ci_key B x \<noteq> JStr (toLowerCase B q)"
      by (auto simp add: list_all_iff)
    then show ?thesis by (cases x) simp_all
  qed
  have recorded: "(\<exists>rest. searchHistory (submit B N s) = JStr (trim B c) # rest \<and>
         (\<forall>x\<in>set rest. \<exists>item. x = JStr item \<and> toLowerCase B item \<noteq> toLowerCase B (trim B c))) \<and>
      length (searchHistory (submit B N s)) \<le> 30 \<and>
      weather_search_history (storage (submit B N s)) = JsonText (JArr (searchHistory (submit B N s)))"
    if a: "city s = JStr c \<and> trim B c \<noteq> [] \<and> error (submit B N s) = []"
  proof -
    from a have clean: "cleanCity_of B s = trim B c" by (simp add: cleanCity_of_def)
    with a submit_history [of B N s] obtain kept
      where kept: "filter_history B (trim B c) (searchHistory s) = Some kept"
        and h: "searchHistory (submit B N s) = take 30 (JStr (trim B c) # kept)"
        and st: "storage (submit B N s) =
           (storage s)\<lparr>weather_search_history := JsonText (JArr (take 30 (JStr (trim B c) # kept)))\<rparr>"
      by auto
    from h have "searchHistory (submit B N s) = JStr (trim B c) # take 29 kept" by simp
    with others [OF kept] have "\<exists>rest. searchHistory (submit B N s) = JStr (trim B c) # rest \<and>
        (\<forall>x\<in>set rest. \<exists>item. x = JStr item \<and> toLowerCase B item \<noteq> toLowerCase B (trim B c))"
      by blast
    moreover from h have "length (searchHistory (submit B N s)) \<le> 30" by simp
    moreover from h st have "weather_search_history (storage (submit B N s)) =
        JsonText (JArr (searchHistory (submit B N s)))" by simp
    ultimately show ?thesis by blast
  qed
  have kept_storage: "storage (submit B N s) = storage s" if "error (submit B N s) \<noteq> []"
    using that submit_history [of B N s] by simp
  have refused: "\<not> can_write (storage s) \<and>
      error (submit B N s) = ''Unable to connect. Please try again.'' \<and>
      (\<exists>c rest. city s = JStr c \<and> trim B c \<noteq> [] \<and>
         searchHistory (submit B N s) = JStr (trim B c) # rest \<and>
         (\<forall>x\<in>set rest. \<exists>item. x = JStr item \<and> toLowerCase B item \<noteq> toLowerCase B (trim B c)))"
    if e: "error (submit B N s) \<noteq> []" and changed: "searchHistory (submit B N s) \<noteq> searchHistory s"
  proof -
    from e changed submit_history [of B N s] obtain kept
      where w: "\<not> can_write (storage s)" and clean: "cleanCity_of B s \<noteq> []"
        and msg: "error (submit B N s) = ''Unable to connect. Please try again.''"
        and kept: "filter_history B (cleanCity_of B s) (searchHistory s) = Some kept"
        and h: "searchHistory (submit B N s) = take 30 (JStr (cleanCity_of B s) # kept)"
      by auto
    from clean obtain c' where c': "city s = JStr c'" "trim B c' \<noteq> []" "cleanCity_of B s = trim B c'"
      by (cases "city s") (simp_all add: cleanCity_of_def)
    from h have "searchHistory (submit B N s) = JStr (trim B c') # take 29 kept" by (simp add: c')
    with others [of "trim B c'" kept] kept c' w msg show ?thesis by auto
  qed
  from recorded kept_storage refused show ?thesis by blast
qed

theorem successful_search_recorded_witness:
  "(\<exists>rest. searchHistory (submit latin1 net_up (typed '' Paris '')) = JStr (trim latin1 '' Paris '') # rest \<and>
      (\<forall>x\<in>set rest. \<exists>item. x = JStr item \<and>
          toLowerCase latin1 item \<noteq> toLowerCase latin1 (trim latin1 '' Paris ''))) \<and>
   length (searchHistory (submit latin1 net_up (typed '' Paris ''))) \<le> 30 \<and>
   weather_search_history (storage (submit latin1 net_up (typed '' Paris ''))) =
     JsonText (JArr (searchHistory (submit latin1 net_up (typed '' Paris '')))) \<and>
   storage (submit latin1 net_down (typed '' Paris '')) = storage (typed '' Paris '') \<and>
   searchHistory (submit latin1 net_down (typed '' Paris '')) = searchHistory (typed '' Paris '') \<and>
   searchHistory (submit latin1 net_unknown (typed '' Paris '')) = searchHistory (typed '' Paris '') \<and>
   \<not> can_write (storage (typed_full '' Paris '')) \<and>
   error (submit latin1 net_up (typed_full '' Paris '')) = ''Unable to connect. Please try again.''"
proof -
  have "city (typed '' Paris '') = JStr '' Paris '' \<and> trim latin1 '' Paris '' \<noteq> [] \<and>
      error (submit latin1 net_up (typed '' Paris '')) = []"
    by (simp add: submit_eval sample_defs)
  moreover have "error (submit latin1 net_down (typed '' Paris '')) \<noteq> [] \<and>
      can_write (storage (typed '' Paris ''))"
    by (simp add: submit_eval sample_defs)
  moreover have "error (submit latin1 net_unknown (typed '' Paris '')) \<noteq> [] \<and>
      error (submit latin1 net_unknown (typed '' Paris '')) \<noteq> ''Unable to connect. Please try again.''"
    by (simp add: submit_eval sample_defs)
  moreover have "error (submit latin1 net_up (typed_full '' Paris '')) \<noteq> [] \<and>
      searchHistory (submit latin1 net_up (typed_full '' Paris '')) \<noteq> searchHistory (typed_full '' Paris '')"
    by (simp add: submit_eval sample_defs)
  ultimately show ?thesis
    using successful_search_recorded [of "typed '' Paris ''" "'' Paris ''" latin1 net_up]
      successful_search_recorded [of "typed '' Paris ''" "'' Paris ''" latin1 net_down]
      successful_search_recorded [of "typed '' Paris ''" "'' Paris ''" latin1 net_unknown]
      successful_search_recorded [of "typed_full '' Paris ''" "'' Paris ''" latin1 net_up]
    by blast
qed

text \<open>
  Claim C5 as stated fails on its last part: in a browser whose storage takes no more,
  a search that finds its city ends with a message and with a changed history.
\<close>

theorem full_storage_changes_history:
  "error (submit latin1 net_up (typed_full '' Paris '')) \<noteq> [] \<and>
   searchHistory (submit latin1 net_up (typed_full '' Paris '')) \<noteq> searchHistory (typed_full '' Paris '')"
  by (simp add: submit_eval sample_defs)

text \<open>
  Claim C6, as amended. A submission keeps the invariant of the history (at most 30
  entries, no two equal once lowercased): a history that has it before has it after, on
  every path; and a submission that changes the history leaves at most 30 entries. The
  startup load always leaves at most 30 entries, but it copies the persisted array
  without removing duplicates. When the persisted array has no two entries equal once
  lowercased, or there is none, the history has the invariant after startup and after
  every sequence of searches that follows, and the array in local storage still has no
  two such entries.
\<close>

theorem history_invariant_preserved:
  "(history_inv B (searchHistory s) \<longrightarrow> history_inv B (searchHistory (submit B N s))) \<and>
   (searchHistory (submit B N s) \<noteq> searchHistory s \<longrightarrow> length (searchHistory (submit B N s)) \<le> 30) \<and>
   length (searchHistory (startup st)) \<le> 30 \<and>
   (persisted_inv B (weather_search_history st) \<longrightarrow>
      history_inv B (searchHistory (startup st)) \<and>
      history_inv B (searchHistory (searches B (startup st) subs)) \<and>
      persisted_inv B (weather_search_history (storage (searches B (startup st) subs))))"
proof (intro conjI impI)
  assume "history_inv B (searchHistory s)"
  then show "history_inv B (searchHistory (submit B N s))" by (rule submit_inv)
next
  assume "searchHistory (submit B N s) \<noteq> searchHistory s"
  with submit_history_cases [of B N s] show "length (searchHistory (submit B N s)) \<le> 30"
    by auto
next
  show "length (searchHistory (startup st)) \<le> 30"
    by (simp add: startup_history split: persisted.splits json.splits)
next
  assume p: "persisted_inv B (weather_search_history st)"
  then show h: "history_inv B (searchHistory (startup st))" by (rule startup_inv)
  from p have "persisted_inv B (weather_search_history (storage (startup st)))"
    by (simp add: startup_storage)
  from searches_inv [OF h this]
  show "history_inv B (searchHistory (searches B (startup st) subs))"
    and "persisted_inv B (weather_search_history (storage (searches B (startup st) subs)))"
    by simp_all
qed

theorem history_invariant_preserved_witness:
  "history_inv latin1 (searchHistory (submit latin1 net_up (typed '' Paris ''))) \<and>
   length (searchHistory (submit latin1 net_up (typed '' Paris ''))) \<le> 30 \<and>
   length (searchHistory (startup (stored (JsonText (JArr two_cities))))) \<le> 30 \<and>
   history_inv latin1 (searchHistory (startup (stored (JsonText (JArr two_cities))))) \<and>
   history_inv latin1 (searchHistory (searches latin1
      (startup (stored (JsonText (JArr two_cities)))) [(JStr ''PARIS'', net_up)])) \<and>
   persisted_inv latin1 (weather_search_history (storage (searches latin1
      (startup (stored (JsonText (JArr two_cities)))) [(JStr ''PARIS'', net_up)])))"
proof -
  have "history_inv latin1 (searchHistory (typed '' Paris ''))"
    by (simp add: history_inv_def sample_defs MAX_STORED_HISTORY_ITEMS_def)
  moreover have "searchHistory (submit latin1 net_up (typed '' Paris '')) \<noteq> searchHistory (typed '' Paris '')"
    by (simp add: submit_eval sample_defs)
  moreover have "persisted_inv latin1 (weather_search_history (stored (JsonText (JArr two_cities))))"
    by (simp add: persisted_inv_def sample_defs)
  ultimately show ?thesis
    using history_invariant_preserved [of latin1 "typed '' Paris ''" net_up "stored (JsonText (JArr two_cities))"
        "[(JStr ''PARIS'', net_up)]"]
    by blast
qed

text \<open>
  Claim C6 as stated fails at the startup load: from the persisted array
  \<^verbatim>\<open>["Paris","paris"]\<close> the history is that array, two entries equal once lowercased.
\<close>

theorem rehydration_keeps_duplicates:
  "\<not> history_inv latin1 (searchHistory (startup (stored (JsonText (JArr [JStr ''Paris'', JStr ''paris''])))))"
proof -
  have "map lower_char ''Paris'' = map lower_char ''paris''"
    by code_simp
  then show ?thesis
    by (simp add: startup_history history_inv_def latin1_def stored_def can_read_def)
qed

text \<open>
  Claim C7. The startup load does not do what the claim says. The persisted text
  \<^verbatim>\<open>[1]\<close> is not an array of strings, and the history after startup is \<open>[1]\<close>, not
  empty: the cast to \<^verbatim>\<open>string[]\<close> checks nothing. Such an entry then breaks the page:
  a search that finds its city ends with the message of a lost connection, raised by
  \<^verbatim>\<open>toLowerCase\<close>, and from \<^verbatim>\<open>[{}]\<close> the dropdown raises when the input takes the
  focus. And on a storage that the browser denies, with no entry at all, the effect
  raises to its caller: \<^verbatim>\<open>getItem\<close> stands outside the \<^verbatim>\<open>try\<close>.
\<close>

theorem history_load_accepts_any_array:
  "\<not> well_formed (JsonText (JArr [JNum 1])) \<and>
   searchHistory (startup (stored (JsonText (JArr [JNum 1])))) = [JNum 1] \<and>
   error (submit latin1 net_up ((startup (stored (JsonText (JArr [JNum 1]))))\<lparr>city := JStr ''Paris''\<rparr>)) =
     ''Unable to connect. Please try again.'' \<and>
   history_dropdown ((startup (stored (JsonText (JArr [JObj []]))))\<lparr>showHistory := True\<rparr>) = Raises \<and>
   load_effect ((stored Absent)\<lparr>denied := True\<rparr>) = ([], Thrown)"
  by (simp add: well_formed_def startup_history history_dropdown_def submit_eval sample_defs
      startup_def load_effect_def guarded_parse_def parse_history_def)

text \<open>
  Claim C8, as amended. For a history of strings: once the input has taken the focus,
  the dropdown holds one button for every entry of the history, in a container whose
  maximal height is 200 pixels (5 times 40), and there is no dropdown when the history
  is empty or once the timeout of the blur has run. From a persisted entry that is
  absent or an array of strings, the history after startup and any searches holds
  strings only, at most 30 of them. Typing, focus, blur and the pressing of a button
  send no request and leave the result, the message, the loading flag, the history and
  local storage as they were; pressing a button sets the input to its entry.
\<close>

theorem dropdown_lists_every_entry:
  "(list_all is_string (searchHistory s) \<longrightarrow>
      history_dropdown (run s (ui_handler Focus)) =
        Renders (if searchHistory s = [] then None
                 else Some \<lparr>maxHeight = 200, buttons = searchHistory s\<rparr>) \<and>
      history_dropdown (run s (ui_handler BlurTimeout)) = Renders None) \<and>
   (strings_stored (weather_search_history st) \<longrightarrow>
      list_all is_string (searchHistory (searches B (startup st) subs)) \<and>
      length (searchHistory (searches B (startup st) subs)) \<le> 30) \<and>
   requests (ui_actions evs) = [] \<and>
   result (run s (ui_actions evs)) = result s \<and> error (run s (ui_actions evs)) = error s \<and>
   loading (run s (ui_actions evs)) = loading s \<and>
   searchHistory (run s (ui_actions evs)) = searchHistory s \<and>
   storage (run s (ui_actions evs)) = storage s \<and>
   run s (onMouseDown item) = s\<lparr>city := item\<rparr>"
proof -
  have shown: "history_dropdown (run s (ui_handler Focus)) =
        Renders (if searchHistory s = [] then None
                 else Some \<lparr>maxHeight = 200, buttons = searchHistory s\<rparr>) \<and>
      history_dropdown (run s (ui_handler BlurTimeout)) = Renders None"
    if "list_all is_string (searchHistory s)"
    using strings_renderable [OF that]
    by (simp add: history_dropdown_def MAX_VISIBLE_HISTORY_ITEMS_def)
  have kept: "list_all is_string (searchHistory (searches B (startup st) subs)) \<and>
      length (searchHistory (searches B (startup st) subs)) \<le> 30"
    if "strings_stored (weather_search_history st)"
    using startup_strings [OF that] searches_strings [of "startup st" B subs] by simp
  have "run s (onMouseDown item) = s\<lparr>city := item\<rparr>"
    by (simp add: onMouseDown_def)
  with shown kept ui_frame [of evs s] show ?thesis by blast
qed

theorem dropdown_lists_every_entry_witness:
  "history_dropdown (run (typed []) (ui_handler Focus)) =
     Renders (Some \<lparr>maxHeight = 200, buttons = two_cities\<rparr>) \<and>
   history_dropdown (run (typed []) (ui_handler BlurTimeout)) = Renders None \<and>
   list_all is_string (searchHistory (searches latin1 (startup (stored (JsonText (JArr two_cities))))
      [(JStr ''Rome'', net_up)])) \<and>
   length (searchHistory (searches latin1 (startup (stored (JsonText (JArr two_cities))))
      [(JStr ''Rome'', net_up)])) \<le> 30 \<and>
   requests (ui_actions [Focus, MouseDown (JStr ''Oslo''), BlurTimeout]) = [] \<and>
   result (run (typed []) (ui_actions [Focus, MouseDown (JStr ''Oslo''), BlurTimeout])) = result (typed []) \<and>
   run (typed []) (onMouseDown (JStr ''Oslo'')) = typed ''Oslo''"
proof -
  have "list_all is_string (searchHistory (typed []))"
    by (simp add: sample_defs)
  moreover have "searchHistory (typed []) = two_cities \<and> two_cities \<noteq> []"
    by (simp add: sample_defs)
  moreover have "strings_stored (weather_search_history (stored (JsonText (JArr two_cities))))"
    by (simp add: strings_stored_def well_formed_def sample_defs)
  moreover have "(typed [])\<lparr>city := JStr ''Oslo''\<rparr> = typed ''Oslo''"
    by (simp add: typed_def)
  ultimately show ?thesis
    using dropdown_lists_every_entry [of "typed []" "stored (JsonText (JArr two_cities))" latin1 "[(JStr ''Rome'', net_up)]"
        "[Focus, MouseDown (JStr ''Oslo''), BlurTimeout]" "JStr ''Oslo''"]
    by simp
qed

text \<open>
  Claim C8 as stated fails on the number of entries: with six entries in the history
  the dropdown holds six buttons, more than \<open>MAX_VISIBLE_HISTORY_ITEMS\<close>.
\<close>

theorem dropdown_shows_six_entries:
  "history_dropdown (run ((typed [])\<lparr>searchHistory := six_cities\<rparr>) (ui_handler Focus)) =
     Renders (Some \<lparr>maxHeight = 200, buttons = six_cities\<rparr>) \<and>
   \<not> length six_cities \<le> MAX_VISIBLE_HISTORY_ITEMS"
  by (simp add: history_dropdown_def MAX_VISIBLE_HISTORY_ITEMS_def six_cities_def)

text \<open>
  Claim C9, as amended. In every state that the mounted page reaches, by setters and by
  firings of the interval: when the snapshot has a time zone that is not empty, the one
  interval is the one made for that time zone, with a delay of 1000 milliseconds and a
  formatter for \<^verbatim>\<open>en-US\<close>, that very zone, a 12-hour clock and two-digit hours, minutes
  and seconds; when it has none, there is no interval and the displayed time is empty.
  A render that changes the time zone to a non-empty one that the formatter's
  constructor accepts computes the displayed time at once and starts the interval; a
  render that unsets it clears both; each firing computes the displayed time again.
  When the constructor raises on the zone, no interval is started. When the browser
  fires the interval is not part of the model.
\<close>

theorem clock_follows_timezone:
  "page_inv F (app_page F t0 st events) \<and>
   (result_timezone new \<noteq> result_timezone old \<and> active_timezone new = Some z \<and>
    F (clock_format z) = Some p \<longrightarrow>
      (\<exists>s'. commit F now old new = Mounted s' \<and> cityTime s' = p now \<and>
         interval s' = Some \<lparr>formatter = clock_format z, print = p, delay = 1000\<rparr>)) \<and>
   (result_timezone new \<noteq> result_timezone old \<and> active_timezone new = Some z \<and>
    F (clock_format z) = None \<longrightarrow> commit F now old new = Unmounted) \<and>
   (result_timezone new \<noteq> result_timezone old \<and> active_timezone new = None \<longrightarrow>
      (\<exists>s'. commit F now old new = Mounted s' \<and> interval s' = None \<and> cityTime s' = [])) \<and>
   (clock_inv F s \<and> active_timezone s = Some z \<longrightarrow>
      (\<exists>p. F (clock_format z) = Some p \<and> cityTime (tick now s) = p now) \<and>
      interval (tick now s) = interval s) \<and>
   (clock_inv F s \<and> active_timezone s = None \<longrightarrow> tick now s = s) \<and>
   clock_format z =
     \<lparr>locales = ''en-US'', timeZone = z, hour = ''2-digit'', minute = ''2-digit'',
      second = ''2-digit'', hour12 = True\<rparr>"
proof (intro conjI impI)
  show "page_inv F (app_page F t0 st events)"
    by (simp add: app_page_def steps_inv mount_inv)
qed (auto simp add: commit_def clock_effect_def clock_cleanup_def tick_def clock_inv_def clock_format_def
    split: option.splits)

theorem clock_follows_timezone_witness:
  "page_inv zone_stamp (app_page zone_stamp 0 (stored Absent)
      [Dispatch 1000 (SetResult (Some paris_snapshot)), Tick 2000, Dispatch 3000 (SetResult None)]) \<and>
   (\<exists>s'. commit zone_stamp 1000 (typed []) ((typed [])\<lparr>result := Some paris_snapshot\<rparr>) = Mounted s' \<and>
      cityTime s' = ''Europe/Paris'' \<and>
      interval s' = Some \<lparr>formatter = clock_format ''Europe/Paris'', print = (\<lambda>now. ''Europe/Paris''),
        delay = 1000\<rparr>) \<and>
   commit zone_stamp 1000 (typed []) ((typed [])\<lparr>result := Some kyiv_snapshot\<rparr>) = Unmounted \<and>
   (\<exists>s'. commit zone_stamp 3000 ((typed [])\<lparr>result := Some paris_snapshot\<rparr>) (typed []) = Mounted s' \<and>
      interval s' = None \<and> cityTime s' = []) \<and>
   tick 1000 (typed []) = typed [] \<and>
   timeZone (clock_format ''Europe/Paris'') = ''Europe/Paris''"
proof -
  let ?on = "(typed [])\<lparr>result := Some paris_snapshot\<rparr>"
  let ?kyiv = "(typed [])\<lparr>result := Some kyiv_snapshot\<rparr>"
  have on: "result_timezone ?on \<noteq> result_timezone (typed []) \<and> active_timezone ?on = Some ''Europe/Paris'' \<and>
      zone_stamp (clock_format ''Europe/Paris'') = Some (\<lambda>now. ''Europe/Paris'')"
    by (simp add: result_timezone_def active_timezone_def paris_snapshot_def typed_def initial_state_def
        zone_stamp_def clock_format_def)
  have kyiv: "result_timezone ?kyiv \<noteq> result_timezone (typed []) \<and> active_timezone ?kyiv = Some ''Europe/Kyiv'' \<and>
      zone_stamp (clock_format ''Europe/Kyiv'') = None"
    by (simp add: result_timezone_def active_timezone_def kyiv_snapshot_def typed_def initial_state_def
        zone_stamp_def clock_format_def)
  have off: "result_timezone (typed []) \<noteq> result_timezone ?on \<and> active_timezone (typed []) = None"
    by (simp add: result_timezone_def active_timezone_def paris_snapshot_def typed_def initial_state_def)
  have idle: "clock_inv zone_stamp (typed []) \<and> active_timezone (typed []) = None"
    by (simp add: clock_inv_def result_timezone_def active_timezone_def typed_def initial_state_def)
  have tz: "timeZone (clock_format ''Europe/Paris'') = ''Europe/Paris''"
    using clock_follows_timezone [of zone_stamp 0 "stored Absent" "[]" ?on "typed []" "''Europe/Paris''"]
    by simp
  from on kyiv off idle tz show ?thesis
    using clock_follows_timezone [of zone_stamp 0 "stored Absent"
        "[Dispatch 1000 (SetResult (Some paris_snapshot)), Tick 2000, Dispatch 3000 (SetResult None)]"
        ?on "typed []" "''Europe/Paris''" "\<lambda>now. ''Europe/Paris''" 1000 "typed []"]
      clock_follows_timezone [of zone_stamp 0 "stored Absent" "[]" ?kyiv "typed []" "''Europe/Kyiv''" _ 1000 "typed []"]
      clock_follows_timezone [of zone_stamp 0 "stored Absent" "[]" "typed []" ?on "''Europe/Paris''" _ 3000 "typed []"]
    by blast
qed

text \<open>
  Claim C9 as stated fails on a time zone that the browser does not know: the snapshot
  carries the zone, the constructor raises, and there is neither a displayed time nor
  an interval.
\<close>

theorem unknown_zone_unmounts:
  "active_timezone ((typed [])\<lparr>result := Some kyiv_snapshot\<rparr>) = Some ''Europe/Kyiv'' \<and>
   commit zone_stamp 1000 (typed []) ((typed [])\<lparr>result := Some kyiv_snapshot\<rparr>) = Unmounted \<and>
   app_page zone_stamp 0 (stored Absent) [Dispatch 1000 (SetResult (Some kyiv_snapshot))] = Unmounted"
  by (simp add: active_timezone_def result_timezone_def commit_def clock_effect_def clock_cleanup_def
      clock_format_def zone_stamp_def kyiv_snapshot_def app_page_def mount_def startup_def
      load_effect_def history_dropdown_def sample_defs)

text \<open>
  Claim C10. A submission whose input trims to the empty string still sends the
  geocode request, for the encoding of the empty string, and leaves the history and
  local storage as they were. After any submission, an entry of the history that was
  not there before is the trimmed input, and that is not empty; so after any number of
  searches every entry is one of the history they started from or a non-empty trimmed
  input, and from a storage without the entry every entry is a non-empty trimmed input.
\<close>

theorem empty_query_not_recorded:
  "(city s = JStr c \<and> trim B c = [] \<and> encodeURIComponent B [] = Some q \<longrightarrow>
      (\<exists>rest. requests (onSubmit B N s) = GeocodeRequest q # rest) \<and>
      searchHistory (submit B N s) = searchHistory s \<and> storage (submit B N s) = storage s) \<and>
   (\<forall>x\<in>set (searchHistory (submit B N s)).
      x \<in> set (searchHistory s) \<or> (\<exists>c. city s = JStr c \<and> x = JStr (trim B c) \<and> trim B c \<noteq> [])) \<and>
   (\<forall>x\<in>set (searchHistory (searches B s subs)).
      x \<in> set (searchHistory s) \<or> (\<exists>c. x = JStr (trim B c) \<and> trim B c \<noteq> [])) \<and>
   (weather_search_history st = Absent \<longrightarrow>
      (\<forall>x\<in>set (searchHistory (searches B (startup st) subs)).
         \<exists>c. x = JStr (trim B c) \<and> trim B c \<noteq> []))"
proof (intro conjI impI ballI)
  assume a: "city s = JStr c \<and> trim B c = [] \<and> encodeURIComponent B [] = Some q"
  then have "cleanCity_of B s = []" by (simp add: cleanCity_of_def)
  with submit_history [of B N s] show "searchHistory (submit B N s) = searchHistory s"
    and "storage (submit B N s) = storage s" by simp_all
  from a show "\<exists>rest. requests (onSubmit B N s) = GeocodeRequest q # rest"
    by (simp add: onSubmit_def try_body_def Let_def split_def
        split: reply.splits option.splits)
next
  fix x assume "x \<in> set (searchHistory (submit B N s))"
  then show "x \<in> set (searchHistory s) \<or> (\<exists>c. city s = JStr c \<and> x = JStr (trim B c) \<and> trim B c \<noteq> [])"
    by (rule submit_entries)
next
  fix x assume "x \<in> set (searchHistory (searches B s subs))"
  then show "x \<in> set (searchHistory s) \<or> (\<exists>c. x = JStr (trim B c) \<and> trim B c \<noteq> [])"
    by (rule searches_entries)
next
  fix x assume "weather_search_history st = Absent"
    and "x \<in> set (searchHistory (searches B (startup st) subs))"
  then show "\<exists>c. x = JStr (trim B c) \<and> trim B c \<noteq> []"
    using searches_entries [of x B "startup st" subs] by (simp add: startup_history)
qed

theorem empty_query_not_recorded_witness:
  "(\<exists>rest. requests (onSubmit latin1 net_up (typed ''  '')) = GeocodeRequest [] # rest) \<and>
   searchHistory (submit latin1 net_up (typed ''  '')) = searchHistory (typed ''  '') \<and>
   storage (submit latin1 net_up (typed ''  '')) = storage (typed ''  '') \<and>
   (JStr ''Paris'' \<in> set (searchHistory (typed '' Paris '')) \<or>
    (\<exists>c. city (typed '' Paris '') = JStr c \<and> JStr ''Paris'' = JStr (trim latin1 c) \<and> trim latin1 c \<noteq> [])) \<and>
   (\<exists>c. JStr ''Paris'' = JStr (trim latin1 c) \<and> trim latin1 c \<noteq> [])"
proof -
  let ?fresh = "stored Absent"
  have "city (typed ''  '') = JStr ''  '' \<and> trim latin1 ''  '' = [] \<and>
      encodeURIComponent latin1 [] = Some []"
    by (simp add: sample_defs)
  moreover have "JStr ''Paris'' \<in> set (searchHistory (submit latin1 net_up (typed '' Paris '')))"
    by (simp add: submit_eval sample_defs)
  moreover have "weather_search_history ?fresh = Absent"
    by (simp add: stored_def)
  moreover have "JStr ''Paris'' \<in> set (searchHistory (searches latin1 (startup ?fresh) [(JStr '' Paris '', net_up)]))"
    by (simp add: startup_def load_effect_def submit_eval sample_defs)
  ultimately show ?thesis
    using empty_query_not_recorded [of "typed ''  ''" "''  ''" latin1 "[]" net_up "[]" ?fresh]
      empty_query_not_recorded [of "typed '' Paris ''" "[]" latin1 "[]" net_up
        "[(JStr '' Paris '', net_up)]" ?fresh]
    by blast
qed

end
